theory Spec2Isabelle
  imports Complex_Main
begin

section \<open>Data model\<close>

text \<open>
  The persistence layer (Prisma) is modelled as a store of tables, each table a list of
  rows in primary-key order. Identifiers are positive integers (\<open>nat\<close>). A time of
  day is the number of seconds since midnight: the validation schemas only admit
  fixed-width \<open>HH:MM:SS\<close> strings, on which the database's ordering and the numeric
  ordering agree. An instant (a JavaScript \<open>Date\<close>) is its millisecond time value; a
  calendar date is the time value of its UTC midnight.
  Status values stay strings, as in the source.
\<close>

record classSchedule =
  cs_id :: nat
  cs_classId :: nat
  cs_subjectId :: nat
  cs_teacherId :: nat
  cs_dayOfWeek :: nat
  cs_startTime :: nat
  cs_endTime :: nat
  cs_room :: "string option"
  cs_academicPeriodId :: nat
  cs_isActive :: bool

record student =
  st_id :: nat
  st_classId :: nat

record attendanceSession =
  se_id :: nat
  se_classScheduleId :: nat
  se_date :: int
  se_status :: string
  se_startedAt :: int
  se_endedAt :: "int option"
  se_notes :: "string option"
  se_createdBy :: nat

record attendance =
  at_id :: nat
  at_attendanceSessionId :: nat
  at_studentId :: nat
  at_status :: string
  at_checkInTime :: "int option"
  at_attendanceMethod :: "string option"
  at_faceConfidence :: "real option"
  at_markedBy :: "nat option"
  at_notes :: "string option"
  at_updatedAt :: "int option"

record store =
  classSchedules :: "classSchedule list"
  students :: "student list"
  attendanceSessions :: "attendanceSession list"
  attendances :: "attendance list"

section \<open>Schedule helper: checkTimeConflict (schedule.helper.js)\<close>

datatype conflictMessage = TeacherConflict nat nat | ClassConflict nat nat

record conflictResult =
  hasConflict :: bool
  message :: "conflictMessage option"

record conflictParams =
  p_teacherId :: nat
  p_classId :: nat
  p_dayOfWeek :: nat
  p_startTime :: nat
  p_endTime :: nat
  p_academicPeriodId :: nat
  p_excludeScheduleId :: "nat option"

text \<open>
  The shared \<open>whereClause\<close>: same day, same academic period, active, and (when
  \<open>excludeScheduleId\<close> is truthy, that is present and not 0) a different id.
\<close>

definition whereClause :: "conflictParams \<Rightarrow> classSchedule \<Rightarrow> bool" where
  "whereClause p e \<longleftrightarrow>
     cs_dayOfWeek e = p_dayOfWeek p \<and>
     cs_academicPeriodId e = p_academicPeriodId p \<and>
     cs_isActive e \<and>
     (case p_excludeScheduleId p of
        None \<Rightarrow> True
      | Some x \<Rightarrow> (if x = 0 then True else cs_id e \<noteq> x))"

text \<open>The three OR'd range conditions of both queries, in the source's order.\<close>

definition timeRangeOR :: "nat \<Rightarrow> nat \<Rightarrow> classSchedule \<Rightarrow> bool" where
  "timeRangeOR startTime endTime e \<longleftrightarrow>
     (cs_startTime e \<le> startTime \<and> cs_endTime e > startTime) \<or>
     (cs_startTime e < endTime \<and> cs_endTime e \<ge> endTime) \<or>
     (cs_startTime e \<ge> startTime \<and> cs_endTime e \<le> endTime)"

definition teacherQuery :: "conflictParams \<Rightarrow> classSchedule \<Rightarrow> bool" where
  "teacherQuery p e \<longleftrightarrow>
     whereClause p e \<and> cs_teacherId e = p_teacherId p \<and>
     timeRangeOR (p_startTime p) (p_endTime p) e"

definition classQuery :: "conflictParams \<Rightarrow> classSchedule \<Rightarrow> bool" where
  "classQuery p e \<longleftrightarrow>
     whereClause p e \<and> cs_classId e = p_classId p \<and>
     timeRangeOR (p_startTime p) (p_endTime p) e"

definition checkTimeConflict :: "classSchedule list \<Rightarrow> conflictParams \<Rightarrow> conflictResult" where
  "checkTimeConflict db p =
     (case find (teacherQuery p) db of
        Some teacherConflict \<Rightarrow>
          \<lparr>hasConflict = True,
           message = Some (TeacherConflict (cs_startTime teacherConflict)
                                           (cs_endTime teacherConflict))\<rparr>
      | None \<Rightarrow>
          (case find (classQuery p) db of
             Some classConflict \<Rightarrow>
               \<lparr>hasConflict = True,
                message = Some (ClassConflict (cs_startTime classConflict)
                                              (cs_endTime classConflict))\<rparr>
           | None \<Rightarrow> \<lparr>hasConflict = False, message = None\<rparr>))"

text \<open>The half-open interval overlap of a candidate range with a stored slot.\<close>

definition overlaps :: "nat \<Rightarrow> nat \<Rightarrow> classSchedule \<Rightarrow> bool" where
  "overlaps startTime endTime e \<longleftrightarrow> startTime < cs_endTime e \<and> cs_startTime e < endTime"

section \<open>Errors and outcomes\<close>

text \<open>
  A thrown \<open>ResponseError(status, message)\<close> is a value. Messages built from a template
  keep their parts instead of the formatted text. \<open>ValidationError\<close> is what
  \<open>validate(schema, request)\<close> raises when the schema rejects the request,
  \<open>RecordNotFound\<close> what an \<open>update\<close> raises when its \<open>where\<close> matches no row, and
  \<open>TypeError\<close> a property read on a missing relation.
\<close>

datatype errorText =
    Msg string
  | ConflictMsg "conflictMessage option"

datatype error =
    ResponseError nat errorText
  | ValidationError
  | RecordNotFound
  | TypeError

text \<open>
  An operation returns what it threw or returned, and the store it leaves behind.
\<close>

type_synonym 'a outcome = "(error + 'a) \<times> store"

text \<open>
  Modelled from the spec: \<open>validate\<close> (validation/validation.js) is not among the
  sources; a request the schema rejects is surfaced as the Validation error of the
  taxonomy, an accepted one is returned with the schema's defaults filled in.
\<close>

definition validate :: "('a \<Rightarrow> 'a option) \<Rightarrow> 'a \<Rightarrow> error + 'a" where
  "validate schema request =
     (case schema request of None \<Rightarrow> Inl ValidationError | Some v \<Rightarrow> Inr v)"

section \<open>Schedule service: bulkCreateSchedules (schedule.service.js)\<close>

record scheduleInput =
  in_classId :: nat
  in_subjectId :: nat
  in_teacherId :: nat
  in_dayOfWeek :: nat
  in_startTime :: nat
  in_endTime :: nat
  in_room :: "string option"
  in_academicPeriodId :: nat

definition scheduleItemValid :: "scheduleInput \<Rightarrow> bool" where
  "scheduleItemValid s \<longleftrightarrow>
     0 < in_classId s \<and> 0 < in_subjectId s \<and> 0 < in_teacherId s \<and>
     1 \<le> in_dayOfWeek s \<and> in_dayOfWeek s \<le> 7 \<and>
     in_startTime s < 86400 \<and> in_endTime s < 86400 \<and>
     (case in_room s of None \<Rightarrow> True | Some r \<Rightarrow> length r \<le> 50) \<and>
     0 < in_academicPeriodId s"

definition bulkCreateSchedulesSchema :: "scheduleInput list \<Rightarrow> scheduleInput list option" where
  "bulkCreateSchedulesSchema schedules =
     (if schedules \<noteq> [] \<and> list_all scheduleItemValid schedules then Some schedules else None)"

definition conflictParamsOf :: "scheduleInput \<Rightarrow> conflictParams" where
  "conflictParamsOf s =
     \<lparr>p_teacherId = in_teacherId s, p_classId = in_classId s,
      p_dayOfWeek = in_dayOfWeek s, p_startTime = in_startTime s,
      p_endTime = in_endTime s, p_academicPeriodId = in_academicPeriodId s,
      p_excludeScheduleId = None\<rparr>"

text \<open>
  The validation loop: every candidate is checked against the persisted table \<open>db\<close>,
  which the loop never changes; the first conflict is thrown.
\<close>

fun validateEach :: "classSchedule list \<Rightarrow> scheduleInput list \<Rightarrow> error option" where
  "validateEach db [] = None"
| "validateEach db (s # ss) =
     (let conflict = checkTimeConflict db (conflictParamsOf s)
      in if hasConflict conflict
         then Some (ResponseError 400 (ConflictMsg (message conflict)))
         else validateEach db ss)"

text \<open>
  Auto-increment primary keys: one more than the largest id in the table. A \<open>create\<close>
  appends its row; foreign keys are not modelled, so it does not fail.
\<close>

definition freshId :: "nat list \<Rightarrow> nat" where
  "freshId ids = Suc (fold max ids 0)"

definition createSchedule_row :: "classSchedule list \<Rightarrow> scheduleInput \<Rightarrow> classSchedule list" where
  "createSchedule_row db s =
     db @ [\<lparr>cs_id = freshId (map cs_id db), cs_classId = in_classId s,
            cs_subjectId = in_subjectId s, cs_teacherId = in_teacherId s,
            cs_dayOfWeek = in_dayOfWeek s, cs_startTime = in_startTime s,
            cs_endTime = in_endTime s, cs_room = in_room s,
            cs_academicPeriodId = in_academicPeriodId s, cs_isActive = True\<rparr>]"

record bulkResult =
  br_message :: string
  br_count :: nat
  br_schedules :: "nat list"

definition bulkCreateSchedules :: "store \<Rightarrow> scheduleInput list \<Rightarrow> bulkResult outcome" where
  "bulkCreateSchedules st request =
     (case validate bulkCreateSchedulesSchema request of
        Inl e \<Rightarrow> (Inl e, st)
      | Inr schedules \<Rightarrow>
          (case validateEach (classSchedules st) schedules of
             Some e \<Rightarrow> (Inl e, st)
           | None \<Rightarrow>
               (let db' = foldl createSchedule_row (classSchedules st) schedules;
                    created = drop (length (classSchedules st)) db'
                in (Inr \<lparr>br_message = ''Schedules created successfully'',
                         br_count = length created,
                         br_schedules = map cs_id created\<rparr>,
                    st\<lparr>classSchedules := db'\<rparr>))))"

section \<open>Attendance helper: risk level (attendance.helper.js)\<close>

definition getAttendanceRiskLevel :: "real \<Rightarrow> nat \<Rightarrow> string" where
  "getAttendanceRiskLevel attendanceRate consecutiveAbsences =
     (if consecutiveAbsences \<ge> 5 \<or> attendanceRate < 50 then ''critical''
      else if consecutiveAbsences \<ge> 3 \<or> attendanceRate < 70 then ''high''
      else if consecutiveAbsences \<ge> 2 \<or> attendanceRate < 80 then ''medium''
      else ''low'')"

section \<open>Dates (ECMAScript time arithmetic)\<close>

text \<open>
  The abstract operations of the language standard on a millisecond time value (an
  instant, counted in UTC). The host's time zone is a parameter \<open>tza\<close>: the offset of
  its local time from UTC in milliseconds (\<open>25200000\<close> for UTC+7), the same at every
  instant a call looks at; a zone whose offset changes between two of these instants
  (a daylight-saving transition) is outside the model.
\<close>

definition msPerDay :: int where
  "msPerDay = 86400000"

definition Day :: "int \<Rightarrow> int" where
  "Day t = t div msPerDay"

definition HourFromTime :: "int \<Rightarrow> int" where
  "HourFromTime t = (t div 3600000) mod 24"

definition MinFromTime :: "int \<Rightarrow> int" where
  "MinFromTime t = (t div 60000) mod 60"

definition SecFromTime :: "int \<Rightarrow> int" where
  "SecFromTime t = (t div 1000) mod 60"

definition msFromTime :: "int \<Rightarrow> int" where
  "msFromTime t = t mod 1000"

definition MakeTime :: "int \<Rightarrow> int \<Rightarrow> int \<Rightarrow> int \<Rightarrow> int" where
  "MakeTime hour minute sec ms = hour * 3600000 + minute * 60000 + sec * 1000 + ms"

definition MakeDate :: "int \<Rightarrow> int \<Rightarrow> int" where
  "MakeDate day time = day * msPerDay + time"

text \<open>From an instant to the host's local time value and back.\<close>

definition LocalTime :: "int \<Rightarrow> int \<Rightarrow> int" where
  "LocalTime tza t = t + tza"

definition UTC :: "int \<Rightarrow> int \<Rightarrow> int" where
  "UTC tza t = t - tza"

text \<open>\<open>getMinutes\<close> and \<open>setMinutes\<close> read and write the minute field of local time.\<close>

definition getMinutes :: "int \<Rightarrow> int \<Rightarrow> int" where
  "getMinutes tza d = MinFromTime (LocalTime tza d)"

definition setMinutes :: "int \<Rightarrow> int \<Rightarrow> int \<Rightarrow> int" where
  "setMinutes tza d m =
     (let t = LocalTime tza d
      in UTC tza (MakeDate (Day t) (MakeTime (HourFromTime t) m (SecFromTime t) (msFromTime t))))"

text \<open>
  \<open>sessionDate.toISOString().split('T')[0]\<close> keeps the calendar day of the session
  date, read in UTC; \<open>new Date(`${day}T${time}`)\<close>, a date-time without offset, is
  that day at the given time of day in the host's local time.
\<close>

definition toISODate :: "int \<Rightarrow> int" where
  "toISODate sessionDate = Day sessionDate"

definition parseDateTime :: "int \<Rightarrow> int \<Rightarrow> nat \<Rightarrow> int" where
  "parseDateTime tza day timeOfDay = UTC tza (MakeDate day (int timeOfDay * 1000))"

text \<open>
  \<open>new Date('YYYY-MM-DD')\<close> for the calendar day \<open>day\<close>: a date without time is read
  in UTC, so it is the UTC midnight of that day.
\<close>

definition newDate :: "int \<Rightarrow> int" where
  "newDate day = MakeDate day 0"

section \<open>Attendance helper (attendance.helper.js)\<close>

text \<open>
  The optional fourth argument defaults to 15 minutes. The first argument of the model
  is the host's zone offset, which the \<open>Date\<close> operations of the function read.
\<close>

definition determineAttendanceStatus ::
  "int \<Rightarrow> int \<Rightarrow> int \<Rightarrow> nat \<Rightarrow> nat option \<Rightarrow> string" where
  "determineAttendanceStatus tza checkInTime sessionDate scheduledStartTime lateThresholdMinutes =
     (let threshold = (case lateThresholdMinutes of None \<Rightarrow> 15 | Some m \<Rightarrow> m);
          sessionDateStr = toISODate sessionDate;
          scheduledDateTime = parseDateTime tza sessionDateStr scheduledStartTime;
          lateThreshold = setMinutes tza scheduledDateTime
                            (getMinutes tza scheduledDateTime + int threshold)
      in if checkInTime \<le> lateThreshold then ''present'' else ''late'')"

definition validateSessionActive :: "attendanceSession \<Rightarrow> error + bool" where
  "validateSessionActive session =
     (if se_status session = ''completed''
      then Inl (ResponseError 400 (Msg ''Cannot modify attendance for completed session''))
      else if se_status session = ''cancelled''
      then Inl (ResponseError 400 (Msg ''Cannot modify attendance for cancelled session''))
      else Inr True)"

section \<open>Session helper (session.helper.js)\<close>

definition validateSessionOwnership :: "attendanceSession \<Rightarrow> nat \<Rightarrow> error + unit" where
  "validateSessionOwnership session teacherId =
     (if se_createdBy session \<noteq> teacherId
      then Inl (ResponseError 403 (Msg ''Unauthorized to access this session''))
      else Inr ())"

section \<open>Query primitives\<close>

text \<open>
  \<open>findFirst\<close> and \<open>findUnique\<close> are \<^const>\<open>find\<close> on the table. An \<open>update\<close> is
  keyed by the primary key (alone or with further columns), so at most one row matches:
  the matching row is replaced in place and returned, and no match raises. (On a table
  with a repeated key every matching row would be rewritten, as by the SQL statement.)
\<close>

definition updateWhere :: "('r \<Rightarrow> bool) \<Rightarrow> ('r \<Rightarrow> 'r) \<Rightarrow> 'r list \<Rightarrow> error + ('r list \<times> 'r)" where
  "updateWhere w d rows =
     (case find w rows of
        None \<Rightarrow> Inl RecordNotFound
      | Some r \<Rightarrow> Inr (map (\<lambda>x. if w x then d x else x) rows, d r))"

text \<open>\<open>value || null\<close> on an optional string: the empty string is falsy.\<close>

definition orNull :: "string option \<Rightarrow> string option" where
  "orNull v = (case v of None \<Rightarrow> None | Some s \<Rightarrow> (if s = [] then None else Some s))"

definition maxLen :: "nat \<Rightarrow> string option \<Rightarrow> bool" where
  "maxLen n v = (case v of None \<Rightarrow> True | Some s \<Rightarrow> length s \<le> n)"

section \<open>Session service (session.service.js)\<close>

text \<open>
  Every service function takes the store, the request and the instant the clock shows
  during the call (all its \<open>new Date()\<close> reads), and returns its outcome;
  studentCheckIn, which reads local time fields, takes the host's zone offset first. A returned
  object keeps the fields the function computes itself; the display names it joins in
  from other tables (class, subject and student names) and the list of rows it echoes
  are left out.
\<close>

record createSessionRequest =
  cq_classScheduleId :: nat
  cq_date :: int
  cq_notes :: "string option"
  cq_profileId :: nat

definition createSessionSchema :: "createSessionRequest \<Rightarrow> createSessionRequest option" where
  "createSessionSchema r =
     (if 0 < cq_classScheduleId r \<and> maxLen 500 (cq_notes r) \<and> 0 < cq_profileId r
      then Some r else None)"

record createSessionResult =
  cr_sessionId :: nat
  cr_date :: int
  cr_status :: string
  cr_startedAt :: int
  cr_notes :: "string option"
  cr_totalStudents :: nat

text \<open>
  Modelled from the spec: the Prisma schema is not among the sources; a column that a
  \<open>create\<close> leaves out (here every attendance column but the student and the status)
  is null.
\<close>

definition newAttendance :: "nat \<Rightarrow> nat \<Rightarrow> student \<Rightarrow> attendance" where
  "newAttendance sessionId attendanceId s =
     \<lparr>at_id = attendanceId, at_attendanceSessionId = sessionId,
      at_studentId = st_id s, at_status = ''absent'',
      at_checkInTime = None, at_attendanceMethod = None, at_faceConfidence = None,
      at_markedBy = None, at_notes = None, at_updatedAt = None\<rparr>"

text \<open>The nested \<open>create\<close>: one row per student of the list, with consecutive new ids.\<close>

definition createAttendances :: "attendance list \<Rightarrow> nat \<Rightarrow> student list \<Rightarrow> attendance list" where
  "createAttendances rows sessionId studs =
     (let base = freshId (map at_id rows)
      in map (\<lambda>(i, s). newAttendance sessionId i s)
             (zip [base ..< base + length studs] studs))"

definition createSession :: "store \<Rightarrow> createSessionRequest \<Rightarrow> int \<Rightarrow> createSessionResult outcome" where
  "createSession st request now =
     (case validate createSessionSchema request of
        Inl e \<Rightarrow> (Inl e, st)
      | Inr validated \<Rightarrow>
          (case find (\<lambda>e. cs_id e = cq_classScheduleId validated \<and>
                           cs_teacherId e = cq_profileId validated \<and>
                           cs_isActive e) (classSchedules st) of
             None \<Rightarrow> (Inl (ResponseError 404 (Msg ''Schedule not found or unauthorized'')), st)
           | Some schedule \<Rightarrow>
               (case find (\<lambda>s. se_classScheduleId s = cq_classScheduleId validated \<and>
                                se_date s = newDate (cq_date validated))
                          (attendanceSessions st) of
                  Some existingSession \<Rightarrow>
                    (Inl (ResponseError 400 (Msg ''Session already exists for this date'')), st)
                | None \<Rightarrow>
                    (let classStudents =
                           filter (\<lambda>s. st_classId s = cs_classId schedule) (students st);
                         session =
                           \<lparr>se_id = freshId (map se_id (attendanceSessions st)),
                            se_classScheduleId = cq_classScheduleId validated,
                            se_date = newDate (cq_date validated),
                            se_status = ''ongoing'',
                            se_startedAt = now,
                            se_endedAt = None,
                            se_notes = orNull (cq_notes validated),
                            se_createdBy = cq_profileId validated\<rparr>;
                         created = createAttendances (attendances st) (se_id session) classStudents
                     in (Inr \<lparr>cr_sessionId = se_id session, cr_date = se_date session,
                              cr_status = se_status session,
                              cr_startedAt = se_startedAt session,
                              cr_notes = se_notes session,
                              cr_totalStudents = length created\<rparr>,
                         st\<lparr>attendanceSessions := attendanceSessions st @ [session],
                            attendances := attendances st @ created\<rparr>)))))"

record updateSessionStatusRequest =
  uq_sessionId :: nat
  uq_status :: string
  uq_profileId :: nat

definition updateSessionStatusSchema ::
  "updateSessionStatusRequest \<Rightarrow> updateSessionStatusRequest option" where
  "updateSessionStatusSchema r =
     (if 0 < uq_sessionId r \<and>
         uq_status r \<in> set [''ongoing'', ''completed'', ''cancelled''] \<and>
         0 < uq_profileId r
      then Some r else None)"

record updateSessionStatusResult =
  ur_sessionId :: nat
  ur_status :: string
  ur_endedAt :: "int option"
  ur_message :: string

definition updateSessionStatus ::
  "store \<Rightarrow> updateSessionStatusRequest \<Rightarrow> int \<Rightarrow> updateSessionStatusResult outcome" where
  "updateSessionStatus st request now =
     (case validate updateSessionStatusSchema request of
        Inl e \<Rightarrow> (Inl e, st)
      | Inr validated \<Rightarrow>
          (case find (\<lambda>s. se_id s = uq_sessionId validated) (attendanceSessions st) of
             None \<Rightarrow> (Inl (ResponseError 404 (Msg ''Session not found'')), st)
           | Some session \<Rightarrow>
               (case validateSessionOwnership session (uq_profileId validated) of
                  Inl e \<Rightarrow> (Inl e, st)
                | Inr _ \<Rightarrow>
                    if se_status session = ''completed''
                    then (Inl (ResponseError 400 (Msg ''Cannot modify completed session'')), st)
                    else if se_status session = ''cancelled''
                    then (Inl (ResponseError 400 (Msg ''Cannot modify cancelled session'')), st)
                    else
                      (case updateWhere (\<lambda>s. se_id s = uq_sessionId validated)
                              (\<lambda>s. s\<lparr>se_status := uq_status validated,
                                      se_endedAt :=
                                        (if uq_status validated = ''completed'' \<or>
                                            uq_status validated = ''cancelled''
                                         then Some now else None)\<rparr>)
                              (attendanceSessions st) of
                         Inl e \<Rightarrow> (Inl e, st)
                       | Inr (rows, updated) \<Rightarrow>
                           (Inr \<lparr>ur_sessionId = se_id updated,
                                 ur_status = se_status updated,
                                 ur_endedAt = se_endedAt updated,
                                 ur_message = ''Session '' @ uq_status validated @ '' successfully''\<rparr>,
                            st\<lparr>attendanceSessions := rows\<rparr>)))))"

section \<open>Attendance service (attendance.service.js)\<close>

definition validStatuses :: "string list" where
  "validStatuses = [''present'', ''absent'', ''late'', ''excused'']"

record attendanceUpdate =
  au_attendanceId :: nat
  au_status :: string
  au_notes :: "string option"

record markAttendanceRequest =
  mq_sessionId :: nat
  mq_attendances :: "attendanceUpdate list"
  mq_profileId :: nat

definition attendanceItemValid :: "attendanceUpdate \<Rightarrow> bool" where
  "attendanceItemValid a \<longleftrightarrow>
     0 < au_attendanceId a \<and> au_status a \<in> set validStatuses \<and> maxLen 255 (au_notes a)"

definition markAttendanceSchema :: "markAttendanceRequest \<Rightarrow> markAttendanceRequest option" where
  "markAttendanceSchema r =
     (if 0 < mq_sessionId r \<and> mq_attendances r \<noteq> [] \<and>
         list_all attendanceItemValid (mq_attendances r) \<and> 0 < mq_profileId r
      then Some r else None)"

text \<open>The \<open>data\<close> of a teacher's update, the same in the bulk and the single operation.\<close>

definition manualData :: "string \<Rightarrow> string option \<Rightarrow> nat \<Rightarrow> int \<Rightarrow> attendance \<Rightarrow> attendance" where
  "manualData status notes profileId now a =
     a\<lparr>at_status := status,
       at_checkInTime := (if status \<noteq> ''absent'' then Some now else None),
       at_attendanceMethod := Some ''manual'',
       at_markedBy := Some profileId,
       at_notes := orNull notes,
       at_updatedAt := Some now\<rparr>"

text \<open>
  The transaction: the updates run in order on the attendance table; the first one that
  raises aborts the whole batch.
\<close>

fun markEach :: "nat \<Rightarrow> nat \<Rightarrow> int \<Rightarrow> attendanceUpdate list \<Rightarrow> attendance list \<Rightarrow>
    error + (attendance list \<times> attendance list)" where
  "markEach sessionId profileId now [] rows = Inr (rows, [])"
| "markEach sessionId profileId now (att # atts) rows =
     (case updateWhere (\<lambda>a. at_id a = au_attendanceId att \<and>
                             at_attendanceSessionId a = sessionId)
             (manualData (au_status att) (au_notes att) profileId now) rows of
        Inl e \<Rightarrow> Inl e
      | Inr (rows', updated) \<Rightarrow>
          (case markEach sessionId profileId now atts rows' of
             Inl e \<Rightarrow> Inl e
           | Inr (rows'', result) \<Rightarrow> Inr (rows'', updated # result)))"

record markAttendanceResult =
  mr_message :: string
  mr_sessionId :: nat
  mr_updated :: nat

definition markAttendance ::
  "store \<Rightarrow> markAttendanceRequest \<Rightarrow> int \<Rightarrow> markAttendanceResult outcome" where
  "markAttendance st request now =
     (case validate markAttendanceSchema request of
        Inl e \<Rightarrow> (Inl e, st)
      | Inr validated \<Rightarrow>
          (case find (\<lambda>s. se_id s = mq_sessionId validated) (attendanceSessions st) of
             None \<Rightarrow> (Inl (ResponseError 404 (Msg ''Session not found'')), st)
           | Some session \<Rightarrow>
               if se_createdBy session \<noteq> mq_profileId validated
               then (Inl (ResponseError 403
                            (Msg ''Unauthorized to mark attendance for this session'')), st)
               else
                 (case validateSessionActive session of
                    Inl e \<Rightarrow> (Inl e, st)
                  | Inr _ \<Rightarrow>
                      (case markEach (mq_sessionId validated) (mq_profileId validated) now
                              (mq_attendances validated) (attendances st) of
                         Inl e \<Rightarrow> (Inl e, st)
                       | Inr (rows, result) \<Rightarrow>
                           (Inr \<lparr>mr_message = ''Attendance marked successfully'',
                                 mr_sessionId = mq_sessionId validated,
                                 mr_updated = length result\<rparr>,
                            st\<lparr>attendances := rows\<rparr>)))))"

record markSingleAttendanceRequest =
  sq_attendanceId :: nat
  sq_status :: string
  sq_notes :: "string option"
  sq_profileId :: nat

definition markSingleAttendanceSchema ::
  "markSingleAttendanceRequest \<Rightarrow> markSingleAttendanceRequest option" where
  "markSingleAttendanceSchema r =
     (if 0 < sq_attendanceId r \<and> sq_status r \<in> set validStatuses \<and>
         maxLen 255 (sq_notes r) \<and> 0 < sq_profileId r
      then Some r else None)"

record markSingleAttendanceResult =
  sr_message :: string
  sr_id :: nat
  sr_status :: string
  sr_checkInTime :: "int option"
  sr_notes :: "string option"

definition markSingleAttendance ::
  "store \<Rightarrow> markSingleAttendanceRequest \<Rightarrow> int \<Rightarrow> markSingleAttendanceResult outcome" where
  "markSingleAttendance st request now =
     (case validate markSingleAttendanceSchema request of
        Inl e \<Rightarrow> (Inl e, st)
      | Inr validated \<Rightarrow>
          (case find (\<lambda>a. at_id a = sq_attendanceId validated) (attendances st) of
             None \<Rightarrow> (Inl (ResponseError 404 (Msg ''Attendance record not found'')), st)
           | Some attendance \<Rightarrow>
               (case find (\<lambda>s. se_id s = at_attendanceSessionId attendance)
                          (attendanceSessions st) of
                  None \<Rightarrow> (Inl TypeError, st)
                | Some attendanceSession \<Rightarrow>
                    if se_createdBy attendanceSession \<noteq> sq_profileId validated
                    then (Inl (ResponseError 403
                                 (Msg ''Unauthorized to modify this attendance'')), st)
                    else
                      (case validateSessionActive attendanceSession of
                         Inl e \<Rightarrow> (Inl e, st)
                       | Inr _ \<Rightarrow>
                           (case updateWhere (\<lambda>a. at_id a = sq_attendanceId validated)
                                   (manualData (sq_status validated) (sq_notes validated)
                                      (sq_profileId validated) now)
                                   (attendances st) of
                              Inl e \<Rightarrow> (Inl e, st)
                            | Inr (rows, updated) \<Rightarrow>
                                (Inr \<lparr>sr_message = ''Attendance updated successfully'',
                                      sr_id = at_id updated,
                                      sr_status = at_status updated,
                                      sr_checkInTime = at_checkInTime updated,
                                      sr_notes = at_notes updated\<rparr>,
                                 st\<lparr>attendances := rows\<rparr>))))))"

record studentCheckInRequest =
  kq_sessionId :: nat
  kq_studentId :: nat
  kq_method :: "string option"
  kq_faceConfidence :: "real option"

text \<open>The schema fills in the default method.\<close>

definition studentCheckInSchema :: "studentCheckInRequest \<Rightarrow> studentCheckInRequest option" where
  "studentCheckInSchema r =
     (if 0 < kq_sessionId r \<and> 0 < kq_studentId r \<and>
         (case kq_method r of
            None \<Rightarrow> True
          | Some m \<Rightarrow> m \<in> set [''face_recognition'', ''manual'']) \<and>
         (case kq_faceConfidence r of None \<Rightarrow> True | Some c \<Rightarrow> 0 \<le> c \<and> c \<le> 1)
      then Some (r\<lparr>kq_method :=
                     (case kq_method r of
                        None \<Rightarrow> Some ''face_recognition''
                      | Some m \<Rightarrow> Some m)\<rparr>)
      else None)"

text \<open>
  \<open>method || 'face_recognition'\<close> and \<open>faceConfidence || null\<close>: the empty string and
  the number 0 are falsy.
\<close>

definition methodOrDefault :: "string option \<Rightarrow> string" where
  "methodOrDefault m =
     (case m of
        None \<Rightarrow> ''face_recognition''
      | Some s \<Rightarrow> (if s = [] then ''face_recognition'' else s))"

definition confidenceOrNull :: "real option \<Rightarrow> real option" where
  "confidenceOrNull c =
     (case c of None \<Rightarrow> None | Some x \<Rightarrow> (if x = 0 then None else Some x))"

definition checkInData :: "string \<Rightarrow> int \<Rightarrow> string option \<Rightarrow> real option \<Rightarrow> attendance \<Rightarrow> attendance" where
  "checkInData status now method faceConfidence a =
     a\<lparr>at_status := status,
       at_checkInTime := Some now,
       at_attendanceMethod := Some (methodOrDefault method),
       at_faceConfidence := confidenceOrNull faceConfidence,
       at_updatedAt := Some now\<rparr>"

record studentCheckInResult =
  kr_message :: string
  kr_id :: nat
  kr_status :: string
  kr_checkInTime :: "int option"
  kr_method :: "string option"

definition studentCheckIn ::
  "int \<Rightarrow> store \<Rightarrow> studentCheckInRequest \<Rightarrow> int \<Rightarrow> studentCheckInResult outcome" where
  "studentCheckIn tza st request now =
     (case validate studentCheckInSchema request of
        Inl e \<Rightarrow> (Inl e, st)
      | Inr validated \<Rightarrow>
          (case find (\<lambda>s. se_id s = kq_sessionId validated) (attendanceSessions st) of
             None \<Rightarrow> (Inl (ResponseError 404 (Msg ''Session not found'')), st)
           | Some session \<Rightarrow>
               if se_status session \<noteq> ''ongoing''
               then (Inl (ResponseError 400 (Msg ''Session is not active for check-in'')), st)
               else
                 (case find (\<lambda>a. at_attendanceSessionId a = kq_sessionId validated \<and>
                                  at_studentId a = kq_studentId validated)
                            (attendances st) of
                    None \<Rightarrow>
                      (Inl (ResponseError 404
                              (Msg ''Attendance record not found for this session'')), st)
                  | Some attendance \<Rightarrow>
                      if at_status attendance \<noteq> ''absent''
                      then (Inl (ResponseError 400
                                   (Msg ''Already checked in for this session'')), st)
                      else
                        (case find (\<lambda>e. cs_id e = se_classScheduleId session)
                                   (classSchedules st) of
                           None \<Rightarrow> (Inl TypeError, st)
                         | Some classSchedule \<Rightarrow>
                             (let scheduleStartTime = cs_startTime classSchedule;
                                  status = determineAttendanceStatus tza now (se_date session)
                                             scheduleStartTime None
                              in case updateWhere (\<lambda>a. at_id a = at_id attendance)
                                        (checkInData status now (kq_method validated)
                                           (kq_faceConfidence validated))
                                        (attendances st) of
                                   Inl e \<Rightarrow> (Inl e, st)
                                 | Inr (rows, updated) \<Rightarrow>
                                     (Inr \<lparr>kr_message =
                                             (if status = ''late''
                                              then ''Checked in successfully (marked as late)''
                                              else ''Checked in successfully''),
                                           kr_id = at_id updated,
                                           kr_status = at_status updated,
                                           kr_checkInTime = at_checkInTime updated,
                                           kr_method = at_attendanceMethod updated\<rparr>,
                                      st\<lparr>attendances := rows\<rparr>))))))"

section \<open>Notions of the specification\<close>

text \<open>
  The spec's \<open>scheduledStart\<close>: the slot's start time combined with the session's date,
  that is the instant at which the host's clock shows the start time of day on the
  session's calendar day.
\<close>

definition scheduledStart :: "int \<Rightarrow> int \<Rightarrow> nat \<Rightarrow> int" where
  "scheduledStart tza sessionDate startTime =
     (sessionDate div 86400000) * 86400000 + int startTime * 1000 - tza"

text \<open>The spec's invariant of an attendance row: a check-in time only when not absent.\<close>

definition checkInTimeInvariant :: "attendance list \<Rightarrow> bool" where
  "checkInTimeInvariant rows =
     list_all (\<lambda>a. at_checkInTime a = None \<or> at_status a \<noteq> ''absent'') rows"

text \<open>
  A run of studentCheckIn calls, each on the store the previous one left, and the number
  of successful calls of the run that are for the session \<open>sid\<close> and the student \<open>stu\<close>.
\<close>

fun successfulCheckIns ::
  "int \<Rightarrow> nat \<Rightarrow> nat \<Rightarrow> store \<Rightarrow> (studentCheckInRequest \<times> int) list \<Rightarrow> nat" where
  "successfulCheckIns tza sid stu st [] = 0"
| "successfulCheckIns tza sid stu st ((rq, now) # calls) =
     (case studentCheckIn tza st rq now of
        (Inr r, st') \<Rightarrow>
          (if kq_sessionId rq = sid \<and> kq_studentId rq = stu then 1 else 0)
            + successfulCheckIns tza sid stu st' calls
      | (Inl e, st') \<Rightarrow> successfulCheckIns tza sid stu st' calls)"

text \<open>
  The record that studentCheckIn finds for a session and a student is no longer absent.
\<close>

definition checkedIn :: "nat \<Rightarrow> nat \<Rightarrow> store \<Rightarrow> bool" where
  "checkedIn sid stu st =
     (case find (\<lambda>a. at_attendanceSessionId a = sid \<and> at_studentId a = stu) (attendances st) of
        None \<Rightarrow> False
      | Some a \<Rightarrow> at_status a \<noteq> ''absent'')"

section \<open>Example data\<close>

text \<open>
  A Monday slot 10:00--11:00 of teacher 2 and class 3, and a candidate of the same
  teacher and class whose start and end are both 10:00.
\<close>

definition slot_10_11 :: classSchedule where
  "slot_10_11 =
     \<lparr>cs_id = 1, cs_classId = 3, cs_subjectId = 4, cs_teacherId = 2,
      cs_dayOfWeek = 1, cs_startTime = 36000, cs_endTime = 39600,
      cs_room = None, cs_academicPeriodId = 1, cs_isActive = True\<rparr>"

definition candidate_10_10 :: conflictParams where
  "candidate_10_10 =
     \<lparr>p_teacherId = 2, p_classId = 3, p_dayOfWeek = 1,
      p_startTime = 36000, p_endTime = 36000, p_academicPeriodId = 1,
      p_excludeScheduleId = None\<rparr>"

text \<open>
  Slots 08:00--09:00 and 08:00--09:30 of the same teacher, and a candidate 09:00--10:00:
  it touches the first and overlaps the second.
\<close>

definition slot_08_09 :: classSchedule where
  "slot_08_09 =
     \<lparr>cs_id = 3, cs_classId = 5, cs_subjectId = 4, cs_teacherId = 2,
      cs_dayOfWeek = 1, cs_startTime = 28800, cs_endTime = 32400,
      cs_room = None, cs_academicPeriodId = 1, cs_isActive = True\<rparr>"

definition slot_0800_0930 :: classSchedule where
  "slot_0800_0930 =
     \<lparr>cs_id = 2, cs_classId = 5, cs_subjectId = 4, cs_teacherId = 2,
      cs_dayOfWeek = 1, cs_startTime = 28800, cs_endTime = 34200,
      cs_room = None, cs_academicPeriodId = 1, cs_isActive = True\<rparr>"

definition candidate_09_10 :: conflictParams where
  "candidate_09_10 =
     \<lparr>p_teacherId = 2, p_classId = 3, p_dayOfWeek = 1,
      p_startTime = 32400, p_endTime = 36000, p_academicPeriodId = 1,
      p_excludeScheduleId = None\<rparr>"

text \<open>A bulk request of two slots of teacher 2 on Monday, 08:00--09:30 and 09:00--10:00.\<close>

definition bulk_first :: scheduleInput where
  "bulk_first =
     \<lparr>in_classId = 3, in_subjectId = 4, in_teacherId = 2, in_dayOfWeek = 1,
      in_startTime = 28800, in_endTime = 34200, in_room = None,
      in_academicPeriodId = 1\<rparr>"

definition bulk_second :: scheduleInput where
  "bulk_second =
     \<lparr>in_classId = 6, in_subjectId = 4, in_teacherId = 2, in_dayOfWeek = 1,
      in_startTime = 32400, in_endTime = 36000, in_room = None,
      in_academicPeriodId = 1\<rparr>"

definition row_first :: classSchedule where
  "row_first =
     \<lparr>cs_id = 2, cs_classId = 3, cs_subjectId = 4, cs_teacherId = 2,
      cs_dayOfWeek = 1, cs_startTime = 28800, cs_endTime = 34200,
      cs_room = None, cs_academicPeriodId = 1, cs_isActive = True\<rparr>"

definition row_second :: classSchedule where
  "row_second =
     \<lparr>cs_id = 3, cs_classId = 6, cs_subjectId = 4, cs_teacherId = 2,
      cs_dayOfWeek = 1, cs_startTime = 32400, cs_endTime = 36000,
      cs_room = None, cs_academicPeriodId = 1, cs_isActive = True\<rparr>"

definition bulk_store :: store where
  "bulk_store =
     \<lparr>classSchedules = [slot_10_11], students = [], attendanceSessions = [],
      attendances = []\<rparr>"

text \<open>
  A store for the session and attendance operations: teacher 7 teaches class 3 on Monday
  at 08:00; the class has the students 11 and 12; session 1 (day 19000) is ongoing with
  both students absent, session 2 (day 18993) is completed.
\<close>

definition demo_schedule :: classSchedule where
  "demo_schedule =
     \<lparr>cs_id = 1, cs_classId = 3, cs_subjectId = 4, cs_teacherId = 7,
      cs_dayOfWeek = 1, cs_startTime = 28800, cs_endTime = 34200,
      cs_room = None, cs_academicPeriodId = 1, cs_isActive = True\<rparr>"

definition demo_students :: "student list" where
  "demo_students =
     [\<lparr>st_id = 11, st_classId = 3\<rparr>, \<lparr>st_id = 12, st_classId = 3\<rparr>,
      \<lparr>st_id = 13, st_classId = 9\<rparr>]"

definition session_ongoing :: attendanceSession where
  "session_ongoing =
     \<lparr>se_id = 1, se_classScheduleId = 1, se_date = 1641600000000,
      se_status = ''ongoing'', se_startedAt = 1641628800000, se_endedAt = None,
      se_notes = None, se_createdBy = 7\<rparr>"

definition session_completed :: attendanceSession where
  "session_completed =
     \<lparr>se_id = 2, se_classScheduleId = 1, se_date = 1640995200000,
      se_status = ''completed'', se_startedAt = 1641024000000,
      se_endedAt = Some 1641029400000, se_notes = None, se_createdBy = 7\<rparr>"

definition absent_row :: "nat \<Rightarrow> nat \<Rightarrow> nat \<Rightarrow> attendance" where
  "absent_row rowId sessionId studentId =
     \<lparr>at_id = rowId, at_attendanceSessionId = sessionId, at_studentId = studentId,
      at_status = ''absent'', at_checkInTime = None, at_attendanceMethod = None,
      at_faceConfidence = None, at_markedBy = None, at_notes = None,
      at_updatedAt = None\<rparr>"

definition demo_store :: store where
  "demo_store =
     \<lparr>classSchedules = [demo_schedule], students = demo_students,
      attendanceSessions = [session_ongoing, session_completed],
      attendances = [absent_row 1 1 11, absent_row 2 1 12,
                     absent_row 3 2 11, absent_row 4 2 12]\<rparr>"

text \<open>
  Session 1 starts at 08:00 of day 19000: on a host in UTC that is the instant
  1641628800000, on a host in UTC+7 the instant 1641603600000.
\<close>

definition checkIn_11 :: studentCheckInRequest where
  "checkIn_11 =
     \<lparr>kq_sessionId = 1, kq_studentId = 11, kq_method = None, kq_faceConfidence = None\<rparr>"

definition checked_in_row :: attendance where
  "checked_in_row =
     (absent_row 1 1 11)
       \<lparr>at_status := ''present'', at_checkInTime := Some 1641629400000,
        at_attendanceMethod := Some ''face_recognition'',
        at_updatedAt := Some 1641629400000\<rparr>"

text \<open>
  The stores of a run on session 1, on a host in UTC: student 11 checks in at 08:10, the
  teacher marks the record absent again at 08:15, and the student checks in a second
  time at 08:20.
\<close>

definition checkedin_store :: store where
  "checkedin_store =
     demo_store\<lparr>attendances :=
       [checked_in_row, absent_row 2 1 12, absent_row 3 2 11, absent_row 4 2 12]\<rparr>"

definition remarked_row :: attendance where
  "remarked_row =
     \<lparr>at_id = 1, at_attendanceSessionId = 1, at_studentId = 11,
      at_status = ''absent'', at_checkInTime = None,
      at_attendanceMethod = Some ''manual'', at_faceConfidence = None,
      at_markedBy = Some 7, at_notes = None, at_updatedAt = Some 1641629700000\<rparr>"

definition remarked_store :: store where
  "remarked_store =
     demo_store\<lparr>attendances :=
       [remarked_row, absent_row 2 1 12, absent_row 3 2 11, absent_row 4 2 12]\<rparr>"

definition rechecked_row :: attendance where
  "rechecked_row =
     \<lparr>at_id = 1, at_attendanceSessionId = 1, at_studentId = 11,
      at_status = ''late'', at_checkInTime = Some 1641630000000,
      at_attendanceMethod = Some ''face_recognition'', at_faceConfidence = None,
      at_markedBy = Some 7, at_notes = None, at_updatedAt = Some 1641630000000\<rparr>"

definition rechecked_store :: store where
  "rechecked_store =
     demo_store\<lparr>attendances :=
       [rechecked_row, absent_row 2 1 12, absent_row 3 2 11, absent_row 4 2 12]\<rparr>"

text \<open>
  A request of teacher 7 for a new session of schedule 1 on day 19007, on the demo store
  and on a store whose class 3 has thirty students.
\<close>

definition create_request :: createSessionRequest where
  "create_request =
     \<lparr>cq_classScheduleId = 1, cq_date = 19007, cq_notes = None, cq_profileId = 7\<rparr>"

definition class_of_30 :: "student list" where
  "class_of_30 = map (\<lambda>i. \<lparr>st_id = i, st_classId = 3\<rparr>) [1 ..< 31]"

definition store_30 :: store where
  "store_30 = demo_store\<lparr>students := class_of_30\<rparr>"

text \<open>
  Teacher 7 marks row 1 of session 1 late, alone and in a batch that also names row 3,
  which belongs to session 2.
\<close>

definition mark_row_1 :: markAttendanceRequest where
  "mark_row_1 =
     \<lparr>mq_sessionId = 1,
      mq_attendances = [\<lparr>au_attendanceId = 1, au_status = ''late'', au_notes = None\<rparr>],
      mq_profileId = 7\<rparr>"

definition mark_rows_1_3 :: markAttendanceRequest where
  "mark_rows_1_3 =
     \<lparr>mq_sessionId = 1,
      mq_attendances = [\<lparr>au_attendanceId = 1, au_status = ''late'', au_notes = None\<rparr>,
                        \<lparr>au_attendanceId = 3, au_status = ''present'', au_notes = None\<rparr>],
      mq_profileId = 7\<rparr>"

definition marked_row :: attendance where
  "marked_row =
     \<lparr>at_id = 1, at_attendanceSessionId = 1, at_studentId = 11,
      at_status = ''late'', at_checkInTime = Some 1641630000000,
      at_attendanceMethod = Some ''manual'', at_faceConfidence = None,
      at_markedBy = Some 7, at_notes = None, at_updatedAt = Some 1641630000000\<rparr>"

definition marked_store :: store where
  "marked_store =
     demo_store\<lparr>attendances :=
       [marked_row, absent_row 2 1 12, absent_row 3 2 11, absent_row 4 2 12]\<rparr>"

text \<open>Teacher 7 marks row 2 of session 1 excused.\<close>

definition excuse_row_2 :: markSingleAttendanceRequest where
  "excuse_row_2 =
     \<lparr>sq_attendanceId = 2, sq_status = ''excused'', sq_notes = Some ''sick note'',
      sq_profileId = 7\<rparr>"

section \<open>Conflict detection\<close>

lemma find_is_None: "(find P xs = None) = (\<not> list_ex P xs)"
  by (induction xs) auto

lemma find_is_Some: "find P xs = Some x \<Longrightarrow> list_ex P xs"
  by (induction xs) (auto split: if_splits)

lemma timeRangeOR_overlaps:
  assumes "startTime < endTime" and "cs_startTime e < cs_endTime e"
  shows "timeRangeOR startTime endTime e \<longleftrightarrow> overlaps startTime endTime e"
  using assms unfolding timeRangeOR_def overlaps_def by auto

lemma hasConflict_iff:
  "hasConflict (checkTimeConflict db p) \<longleftrightarrow>
     list_ex (teacherQuery p) db \<or> list_ex (classQuery p) db"
  unfolding checkTimeConflict_def
  by (auto split: option.splits simp: find_is_None dest: find_is_Some)

lemmas example_slots =
  slot_10_11_def candidate_10_10_def slot_08_09_def slot_0800_0930_def candidate_09_10_def

lemmas conflict_defs =
  checkTimeConflict_def teacherQuery_def classQuery_def whereClause_def timeRangeOR_def
  overlaps_def

text \<open>
  C1, as stated, fails on the code: the candidate 10:00--10:00 (accepted by the schema,
  which never compares the two times) is reported as a conflict with the stored slot
  10:00--11:00 by the first range condition, although \<open>existing.start < candidate.end\<close>
  is false.
\<close>

theorem checkTimeConflict_degenerate_counterexample:
  "hasConflict (checkTimeConflict [slot_10_11] candidate_10_10) \<and>
   whereClause candidate_10_10 slot_10_11 \<and>
   cs_teacherId slot_10_11 = p_teacherId candidate_10_10 \<and>
   \<not> (p_startTime candidate_10_10 < cs_endTime slot_10_11 \<and>
      cs_startTime slot_10_11 < p_endTime candidate_10_10)"
  by (simp add: conflict_defs example_slots)

text \<open>
  C1 (amended): when the candidate and every stored slot satisfy \<open>start < end\<close>,
  checkTimeConflict reports a conflict if and only if some stored slot in scope (same
  day and period, active, not the excluded id) of the same teacher or the same class
  satisfies \<open>candidate.start < existing.end\<close> and \<open>existing.start < candidate.end\<close>;
  on every stored slot the three OR'd range conditions agree with this half-open
  overlap, and a stored slot that ends exactly when the candidate starts does not
  satisfy them.
\<close>

theorem checkTimeConflict_half_open_overlap:
  assumes cand: "p_startTime p < p_endTime p"
    and db: "list_all (\<lambda>e. cs_startTime e < cs_endTime e) db"
  shows "(hasConflict (checkTimeConflict db p) \<longleftrightarrow>
            (\<exists>e \<in> set db. whereClause p e \<and>
               (cs_teacherId e = p_teacherId p \<or> cs_classId e = p_classId p) \<and>
               p_startTime p < cs_endTime e \<and> cs_startTime e < p_endTime p)) \<and>
         (\<forall>e \<in> set db. timeRangeOR (p_startTime p) (p_endTime p) e \<longleftrightarrow>
               (p_startTime p < cs_endTime e \<and> cs_startTime e < p_endTime p)) \<and>
         (\<forall>e \<in> set db. cs_endTime e = p_startTime p \<longrightarrow>
               \<not> timeRangeOR (p_startTime p) (p_endTime p) e)"
proof -
  have eq: "timeRangeOR (p_startTime p) (p_endTime p) e \<longleftrightarrow>
            (p_startTime p < cs_endTime e \<and> cs_startTime e < p_endTime p)"
    if "e \<in> set db" for e
  proof -
    from db that have "cs_startTime e < cs_endTime e" by (simp add: list_all_iff)
    with cand show ?thesis
      using timeRangeOR_overlaps [of "p_startTime p" "p_endTime p" e]
      by (simp add: overlaps_def)
  qed
  have whole: "hasConflict (checkTimeConflict db p) \<longleftrightarrow>
            (\<exists>e \<in> set db. whereClause p e \<and>
               (cs_teacherId e = p_teacherId p \<or> cs_classId e = p_classId p) \<and>
               p_startTime p < cs_endTime e \<and> cs_startTime e < p_endTime p)"
    unfolding hasConflict_iff list_ex_iff teacherQuery_def classQuery_def
    using eq by blast
  have touching: "\<not> timeRangeOR (p_startTime p) (p_endTime p) e"
    if "e \<in> set db" "cs_endTime e = p_startTime p" for e
    using eq [OF that(1)] that(2) by simp
  from whole eq touching show ?thesis by blast
qed

theorem checkTimeConflict_half_open_overlap_witness:
  "p_startTime candidate_09_10 < p_endTime candidate_09_10 \<and>
   list_all (\<lambda>e. cs_startTime e < cs_endTime e) [slot_08_09, slot_0800_0930] \<and>
   hasConflict (checkTimeConflict [slot_08_09, slot_0800_0930] candidate_09_10) \<and>
   p_startTime candidate_09_10 < cs_endTime slot_0800_0930 \<and>
   cs_startTime slot_0800_0930 < p_endTime candidate_09_10 \<and>
   cs_endTime slot_08_09 = p_startTime candidate_09_10 \<and>
   \<not> timeRangeOR (p_startTime candidate_09_10) (p_endTime candidate_09_10) slot_08_09 \<and>
   \<not> hasConflict (checkTimeConflict [slot_08_09] candidate_09_10)"
  using checkTimeConflict_half_open_overlap [of candidate_09_10 "[slot_08_09, slot_0800_0930]"]
  by (simp add: conflict_defs example_slots)

section \<open>Bulk creation\<close>

lemma validateEach_persisted_only:
  "(validateEach db ss = None) =
     list_all (\<lambda>s. \<not> hasConflict (checkTimeConflict db (conflictParamsOf s))) ss"
  by (induction ss) (simp_all add: Let_def)

lemmas bulk_examples =
  bulk_first_def bulk_second_def row_first_def row_second_def bulk_store_def slot_10_11_def

text \<open>
  C8: a bulk call that admits two mutually conflicting slots. The two candidates are
  slots of teacher 2 on the same day and period, 08:00--09:30 and 09:00--10:00; neither
  conflicts with the persisted table (one slot, 10:00--11:00), so the validation loop,
  which checks each candidate against the persisted table only
  (\<open>validateEach_persisted_only\<close>), passes and both rows are created, although
  checkTimeConflict reports each of them as a conflict once the other is persisted.
\<close>

theorem bulkCreateSchedules_admits_mutual_conflict:
  "in_teacherId bulk_first = in_teacherId bulk_second \<and>
   in_dayOfWeek bulk_first = in_dayOfWeek bulk_second \<and>
   in_academicPeriodId bulk_first = in_academicPeriodId bulk_second \<and>
   in_startTime bulk_first < in_endTime bulk_second \<and>
   in_startTime bulk_second < in_endTime bulk_first \<and>
   \<not> hasConflict (checkTimeConflict (classSchedules bulk_store) (conflictParamsOf bulk_first)) \<and>
   \<not> hasConflict (checkTimeConflict (classSchedules bulk_store) (conflictParamsOf bulk_second)) \<and>
   hasConflict (checkTimeConflict (classSchedules bulk_store @ [row_first])
                  (conflictParamsOf bulk_second)) \<and>
   hasConflict (checkTimeConflict (classSchedules bulk_store @ [row_second])
                  (conflictParamsOf bulk_first)) \<and>
   bulkCreateSchedules bulk_store [bulk_first, bulk_second] =
     (Inr \<lparr>br_message = ''Schedules created successfully'', br_count = 2,
           br_schedules = [2, 3]\<rparr>,
      bulk_store\<lparr>classSchedules := [slot_10_11, row_first, row_second]\<rparr>)"
  by (simp add: bulkCreateSchedules_def validate_def bulkCreateSchedulesSchema_def
      scheduleItemValid_def conflictParamsOf_def conflict_defs createSchedule_row_def
      freshId_def bulk_examples Let_def)

section \<open>Risk level\<close>

text \<open>
  C9: getAttendanceRiskLevel evaluates its tiers in order, the two conditions of each
  tier OR'd: the result is critical exactly when \<open>consecutiveAbsences \<ge> 5\<close> or
  \<open>rate < 50\<close>; high exactly when that fails and \<open>consecutiveAbsences \<ge> 3\<close> or
  \<open>rate < 70\<close>; medium exactly when both fail and \<open>consecutiveAbsences \<ge> 2\<close> or
  \<open>rate < 80\<close>; low otherwise. In particular it is critical whenever
  \<open>consecutiveAbsences \<ge> 5\<close>, whatever the rate.
\<close>

theorem getAttendanceRiskLevel_tiers:
  "(getAttendanceRiskLevel rate c = ''critical'' \<longleftrightarrow> c \<ge> 5 \<or> rate < 50) \<and>
   (getAttendanceRiskLevel rate c = ''high'' \<longleftrightarrow>
      \<not> (c \<ge> 5 \<or> rate < 50) \<and> (c \<ge> 3 \<or> rate < 70)) \<and>
   (getAttendanceRiskLevel rate c = ''medium'' \<longleftrightarrow>
      \<not> (c \<ge> 5 \<or> rate < 50) \<and> \<not> (c \<ge> 3 \<or> rate < 70) \<and>
      (c \<ge> 2 \<or> rate < 80)) \<and>
   (getAttendanceRiskLevel rate c = ''low'' \<longleftrightarrow>
      \<not> (c \<ge> 5 \<or> rate < 50) \<and> \<not> (c \<ge> 3 \<or> rate < 70) \<and>
      \<not> (c \<ge> 2 \<or> rate < 80)) \<and>
   (c \<ge> 5 \<longrightarrow> getAttendanceRiskLevel rate c = ''critical'')"
  unfolding getAttendanceRiskLevel_def by simp

theorem getAttendanceRiskLevel_tiers_witness:
  "(5::nat) \<ge> 5 \<and> getAttendanceRiskLevel 100 5 = ''critical'' \<and>
   getAttendanceRiskLevel 60 3 = ''high'' \<and>
   getAttendanceRiskLevel 75 0 = ''medium'' \<and>
   getAttendanceRiskLevel 80 1 = ''low''"
  using getAttendanceRiskLevel_tiers [of 100 5] getAttendanceRiskLevel_tiers [of 60 3]
    getAttendanceRiskLevel_tiers [of 75 0] getAttendanceRiskLevel_tiers [of 80 1]
  by simp

section \<open>Late threshold\<close>

lemma div_mod_scale:
  fixes x :: int
  shows "(x div n) * (n * k) + (x mod n) * k = x * k"
proof -
  have "x * k = ((x div n) * n + x mod n) * k" by simp
  also have "\<dots> = (x div n) * (n * k) + (x mod n) * k"
    by (simp only: distrib_right mult.assoc)
  finally show ?thesis by simp
qed

text \<open>A time value is rebuilt from its day and its time fields.\<close>

lemma time_decomposition:
  "MakeDate (Day t) (MakeTime (HourFromTime t) (MinFromTime t) (SecFromTime t) (msFromTime t)) = t"
proof -
  define a where "a = t div 1000"
  define b where "b = a div 60"
  define c where "c = b div 60"
  have b_eq: "t div 60000 = b"
    using zdiv_zmult2_eq [of 60 t 1000] by (simp add: a_def b_def)
  have c_eq: "t div 3600000 = c"
    using zdiv_zmult2_eq [of 60 t 60000] by (simp add: b_eq c_def)
  have d_eq: "t div 86400000 = c div 24"
    using zdiv_zmult2_eq [of 24 t 3600000] by (simp add: c_eq)
  have hours: "(c div 24) * 86400000 + (c mod 24) * 3600000 = c * 3600000"
    using div_mod_scale [of c 24 3600000] by simp
  have minutes: "c * 3600000 + (b mod 60) * 60000 = b * 60000"
    using div_mod_scale [of b 60 60000] by (simp add: c_def)
  have seconds: "b * 60000 + (a mod 60) * 1000 = a * 1000"
    using div_mod_scale [of a 60 1000] by (simp add: b_def)
  have millis: "a * 1000 + t mod 1000 = t"
    by (simp add: a_def)
  have "MakeDate (Day t) (MakeTime (HourFromTime t) (MinFromTime t) (SecFromTime t) (msFromTime t))
      = (c div 24) * 86400000 + (c mod 24) * 3600000 + (b mod 60) * 60000 + (a mod 60) * 1000
          + t mod 1000"
    by (simp add: MakeDate_def Day_def MakeTime_def HourFromTime_def MinFromTime_def
        SecFromTime_def msFromTime_def msPerDay_def b_eq c_eq d_eq a_def [symmetric])
  also have "\<dots> = t"
    using hours minutes seconds millis by linarith
  finally show ?thesis .
qed

text \<open>
  \<open>d.setMinutes(d.getMinutes() + k)\<close> moves the instant by \<open>k\<close> minutes, whatever the
  zone offset.
\<close>

lemma setMinutes_getMinutes_add:
  "setMinutes tza d (getMinutes tza d + k) = d + k * 60000"
proof -
  let ?t = "LocalTime tza d"
  have "MakeDate (Day ?t)
          (MakeTime (HourFromTime ?t) (MinFromTime ?t + k) (SecFromTime ?t) (msFromTime ?t)) =
        MakeDate (Day ?t)
          (MakeTime (HourFromTime ?t) (MinFromTime ?t) (SecFromTime ?t) (msFromTime ?t))
          + k * 60000"
    by (simp add: MakeDate_def MakeTime_def algebra_simps)
  also have "\<dots> = ?t + k * 60000"
    by (simp only: time_decomposition)
  finally show ?thesis
    by (simp add: setMinutes_def getMinutes_def Let_def UTC_def LocalTime_def)
qed

lemma determineAttendanceStatus_default:
  "determineAttendanceStatus tza now sessionDate start None =
     (if now \<le> scheduledStart tza sessionDate start + 15 * 60000
      then ''present'' else ''late'')"
  by (simp add: determineAttendanceStatus_def Let_def setMinutes_getMinutes_add
      scheduledStart_def parseDateTime_def toISODate_def UTC_def MakeDate_def Day_def
      msPerDay_def)

lemma determineAttendanceStatus_not_absent:
  "determineAttendanceStatus tza now sessionDate start threshold \<noteq> ''absent''"
  by (simp add: determineAttendanceStatus_def Let_def)

section \<open>Session lifecycle\<close>

lemmas demo_defs = demo_store_def demo_schedule_def demo_students_def session_ongoing_def
  session_completed_def absent_row_def checkIn_11_def checked_in_row_def

lemma validateSessionActive_terminal:
  "se_status s = ''completed'' \<or> se_status s = ''cancelled'' \<Longrightarrow>
   \<exists>e. validateSessionActive s = Inl e"
  by (auto simp: validateSessionActive_def)

lemma updateSessionStatus_terminal:
  assumes "find (\<lambda>s. se_id s = uq_sessionId rq) (attendanceSessions st) = Some s"
    and "se_status s = ''completed'' \<or> se_status s = ''cancelled''"
  shows "\<exists>e. updateSessionStatus st rq now = (Inl e, st)"
  using assms
  by (auto simp: updateSessionStatus_def validate_def updateSessionStatusSchema_def
      validateSessionOwnership_def split: option.splits sum.splits if_splits)

lemma markAttendance_terminal:
  assumes "find (\<lambda>s. se_id s = mq_sessionId rq) (attendanceSessions st) = Some s"
    and "se_status s = ''completed'' \<or> se_status s = ''cancelled''"
  shows "\<exists>e. markAttendance st rq now = (Inl e, st)"
  using assms validateSessionActive_terminal [of s]
  by (auto simp: markAttendance_def validate_def markAttendanceSchema_def
      split: option.splits sum.splits if_splits)

lemma markSingleAttendance_terminal:
  assumes "find (\<lambda>a. at_id a = sq_attendanceId rq) (attendances st) = Some a"
    and "find (\<lambda>s. se_id s = at_attendanceSessionId a) (attendanceSessions st) = Some s"
    and "se_status s = ''completed'' \<or> se_status s = ''cancelled''"
  shows "\<exists>e. markSingleAttendance st rq now = (Inl e, st)"
  using assms validateSessionActive_terminal [of s]
  by (auto simp: markSingleAttendance_def validate_def markSingleAttendanceSchema_def
      split: option.splits sum.splits if_splits)

lemma studentCheckIn_terminal:
  assumes "find (\<lambda>s. se_id s = kq_sessionId rq) (attendanceSessions st) = Some s"
    and "se_status s = ''completed'' \<or> se_status s = ''cancelled''"
  shows "\<exists>e. studentCheckIn tza st rq now = (Inl e, st)"
  using assms
  by (auto simp: studentCheckIn_def validate_def studentCheckInSchema_def
      split: option.splits sum.splits if_splits)

text \<open>
  C2: when the session with id \<open>sid\<close> is completed or cancelled, updateSessionStatus,
  markAttendance and studentCheckIn on that session, and markSingleAttendance on an
  attendance row of that session, all end in an error and leave the whole store,
  hence the session's status and its attendance rows, as it was.
\<close>

theorem terminal_session_rejects_mutation:
  assumes "find (\<lambda>s. se_id s = sid) (attendanceSessions st) = Some s"
    and "se_status s = ''completed'' \<or> se_status s = ''cancelled''"
  shows "(uq_sessionId uq = sid \<longrightarrow> (\<exists>e. updateSessionStatus st uq now = (Inl e, st))) \<and>
         (mq_sessionId mq = sid \<longrightarrow> (\<exists>e. markAttendance st mq now = (Inl e, st))) \<and>
         (find (\<lambda>a. at_id a = sq_attendanceId sq) (attendances st) = Some a \<and>
            at_attendanceSessionId a = sid \<longrightarrow>
            (\<exists>e. markSingleAttendance st sq now = (Inl e, st))) \<and>
         (kq_sessionId kq = sid \<longrightarrow> (\<exists>e. studentCheckIn tza st kq now = (Inl e, st)))"
  using assms updateSessionStatus_terminal [of uq st s now]
    markAttendance_terminal [of mq st s now]
    markSingleAttendance_terminal [of sq st a s now]
    studentCheckIn_terminal [of kq st s tza now]
  by auto

theorem terminal_session_rejects_mutation_witness:
  "find (\<lambda>s. se_id s = 2) (attendanceSessions demo_store) = Some session_completed \<and>
   se_status session_completed = ''completed'' \<and>
   find (\<lambda>a. at_id a = 3) (attendances demo_store) = Some (absent_row 3 2 11) \<and>
   at_attendanceSessionId (absent_row 3 2 11) = 2 \<and>
   updateSessionStatus demo_store
     \<lparr>uq_sessionId = 2, uq_status = ''ongoing'', uq_profileId = 7\<rparr> 1641630000000
     = (Inl (ResponseError 400 (Msg ''Cannot modify completed session'')), demo_store) \<and>
   markAttendance demo_store
     \<lparr>mq_sessionId = 2,
      mq_attendances = [\<lparr>au_attendanceId = 3, au_status = ''present'', au_notes = None\<rparr>],
      mq_profileId = 7\<rparr> 1641630000000
     = (Inl (ResponseError 400 (Msg ''Cannot modify attendance for completed session'')),
        demo_store) \<and>
   markSingleAttendance demo_store
     \<lparr>sq_attendanceId = 3, sq_status = ''present'', sq_notes = None, sq_profileId = 7\<rparr>
     1641630000000
     = (Inl (ResponseError 400 (Msg ''Cannot modify attendance for completed session'')),
        demo_store) \<and>
   studentCheckIn 0 demo_store
     \<lparr>kq_sessionId = 2, kq_studentId = 11, kq_method = None, kq_faceConfidence = None\<rparr>
     1641630000000
     = (Inl (ResponseError 400 (Msg ''Session is not active for check-in'')), demo_store)"
proof -
  have s: "find (\<lambda>s. se_id s = 2) (attendanceSessions demo_store) = Some session_completed"
    by (simp add: demo_defs)
  have t: "se_status session_completed = ''completed'' \<or>
           se_status session_completed = ''cancelled''"
    by (simp add: demo_defs)
  have a: "find (\<lambda>a. at_id a = 3) (attendances demo_store) = Some (absent_row 3 2 11)"
    by (simp add: demo_defs)
  have b: "at_attendanceSessionId (absent_row 3 2 11) = 2"
    by (simp add: demo_defs)
  have c: "se_status session_completed = ''completed''"
    by (simp add: demo_defs)
  have u: "updateSessionStatus demo_store
     \<lparr>uq_sessionId = 2, uq_status = ''ongoing'', uq_profileId = 7\<rparr> 1641630000000
     = (Inl (ResponseError 400 (Msg ''Cannot modify completed session'')), demo_store)"
    by (simp add: updateSessionStatus_def validate_def updateSessionStatusSchema_def
        validateSessionOwnership_def demo_defs)
  have m: "markAttendance demo_store
     \<lparr>mq_sessionId = 2,
      mq_attendances = [\<lparr>au_attendanceId = 3, au_status = ''present'', au_notes = None\<rparr>],
      mq_profileId = 7\<rparr> 1641630000000
     = (Inl (ResponseError 400 (Msg ''Cannot modify attendance for completed session'')),
        demo_store)"
    by (simp add: markAttendance_def validate_def markAttendanceSchema_def
        attendanceItemValid_def validStatuses_def maxLen_def validateSessionActive_def
        demo_defs)
  have g: "markSingleAttendance demo_store
     \<lparr>sq_attendanceId = 3, sq_status = ''present'', sq_notes = None, sq_profileId = 7\<rparr>
     1641630000000
     = (Inl (ResponseError 400 (Msg ''Cannot modify attendance for completed session'')),
        demo_store)"
    by (simp add: markSingleAttendance_def validate_def markSingleAttendanceSchema_def
        validStatuses_def maxLen_def validateSessionActive_def demo_defs)
  have k: "studentCheckIn 0 demo_store
     \<lparr>kq_sessionId = 2, kq_studentId = 11, kq_method = None, kq_faceConfidence = None\<rparr>
     1641630000000
     = (Inl (ResponseError 400 (Msg ''Session is not active for check-in'')), demo_store)"
    by (simp add: studentCheckIn_def validate_def studentCheckInSchema_def demo_defs)
  show ?thesis
    using s c a b u m g k
      terminal_session_rejects_mutation [OF s t,
        of "\<lparr>uq_sessionId = 2, uq_status = ''ongoing'', uq_profileId = 7\<rparr>" 1641630000000
           "\<lparr>mq_sessionId = 2,
             mq_attendances = [\<lparr>au_attendanceId = 3, au_status = ''present'', au_notes = None\<rparr>],
             mq_profileId = 7\<rparr>"
           "\<lparr>sq_attendanceId = 3, sq_status = ''present'', sq_notes = None, sq_profileId = 7\<rparr>"
           "absent_row 3 2 11"
           "\<lparr>kq_sessionId = 2, kq_studentId = 11, kq_method = None, kq_faceConfidence = None\<rparr>"
           0]
    by simp
qed

text \<open>
  C3, as stated, fails on the code: the schema lists \<open>ongoing\<close> among the valid values,
  so requesting \<open>ongoing\<close> for the ongoing session 1 is accepted and applied (the status
  stays \<open>ongoing\<close>, \<open>endedAt\<close> is set to null) instead of being rejected.
\<close>

theorem updateSessionStatus_ongoing_counterexample:
  "updateSessionStatus demo_store
     \<lparr>uq_sessionId = 1, uq_status = ''ongoing'', uq_profileId = 7\<rparr> 1641630000000 =
   (Inr \<lparr>ur_sessionId = 1, ur_status = ''ongoing'', ur_endedAt = None,
         ur_message = ''Session ongoing successfully''\<rparr>,
    demo_store)"
  by (simp add: updateSessionStatus_def validate_def updateSessionStatusSchema_def
      validateSessionOwnership_def updateWhere_def demo_defs)

text \<open>
  C3 (amended): updateSessionStatus succeeds only when the requested status is one of
  \<open>ongoing\<close>, \<open>completed\<close>, \<open>cancelled\<close>; any other requested value is rejected as a
  Validation error and nothing is applied. For an ongoing session and its creator each
  of the three values is accepted: the session takes the requested status, with
  \<open>endedAt = now\<close> for \<open>completed\<close> and \<open>cancelled\<close> and \<open>endedAt = null\<close> for \<open>ongoing\<close>.
\<close>

theorem updateSessionStatus_from_ongoing:
  "(fst (updateSessionStatus st rq now) = Inr r \<longrightarrow>
      uq_status rq \<in> set [''ongoing'', ''completed'', ''cancelled'']) \<and>
   (uq_status rq \<notin> set [''ongoing'', ''completed'', ''cancelled''] \<longrightarrow>
      updateSessionStatus st rq now = (Inl ValidationError, st)) \<and>
   (find (\<lambda>s. se_id s = uq_sessionId rq) (attendanceSessions st) = Some s \<and>
    se_status s = ''ongoing'' \<and> se_createdBy s = uq_profileId rq \<and>
    0 < uq_sessionId rq \<and> 0 < uq_profileId rq \<and>
    uq_status rq \<in> set [''ongoing'', ''completed'', ''cancelled''] \<longrightarrow>
      updateSessionStatus st rq now =
        (Inr \<lparr>ur_sessionId = se_id s, ur_status = uq_status rq,
              ur_endedAt = (if uq_status rq = ''completed'' \<or> uq_status rq = ''cancelled''
                            then Some now else None),
              ur_message = ''Session '' @ uq_status rq @ '' successfully''\<rparr>,
         st\<lparr>attendanceSessions :=
              map (\<lambda>x. if se_id x = uq_sessionId rq
                        then x\<lparr>se_status := uq_status rq,
                               se_endedAt :=
                                 (if uq_status rq = ''completed'' \<or> uq_status rq = ''cancelled''
                                  then Some now else None)\<rparr>
                        else x)
                  (attendanceSessions st)\<rparr>))"
proof (intro conjI impI)
  assume "fst (updateSessionStatus st rq now) = Inr r"
  then show "uq_status rq \<in> set [''ongoing'', ''completed'', ''cancelled'']"
    by (auto simp: updateSessionStatus_def validate_def updateSessionStatusSchema_def
        split: option.splits sum.splits if_splits)
next
  assume "uq_status rq \<notin> set [''ongoing'', ''completed'', ''cancelled'']"
  then show "updateSessionStatus st rq now = (Inl ValidationError, st)"
    by (simp add: updateSessionStatus_def validate_def updateSessionStatusSchema_def)
next
  assume h: "find (\<lambda>s. se_id s = uq_sessionId rq) (attendanceSessions st) = Some s \<and>
    se_status s = ''ongoing'' \<and> se_createdBy s = uq_profileId rq \<and>
    0 < uq_sessionId rq \<and> 0 < uq_profileId rq \<and>
    uq_status rq \<in> set [''ongoing'', ''completed'', ''cancelled'']"
  then have v: "validate updateSessionStatusSchema rq = Inr rq"
    by (simp add: validate_def updateSessionStatusSchema_def)
  from h show "updateSessionStatus st rq now =
        (Inr \<lparr>ur_sessionId = se_id s, ur_status = uq_status rq,
              ur_endedAt = (if uq_status rq = ''completed'' \<or> uq_status rq = ''cancelled''
                            then Some now else None),
              ur_message = ''Session '' @ uq_status rq @ '' successfully''\<rparr>,
         st\<lparr>attendanceSessions :=
              map (\<lambda>x. if se_id x = uq_sessionId rq
                        then x\<lparr>se_status := uq_status rq,
                               se_endedAt :=
                                 (if uq_status rq = ''completed'' \<or> uq_status rq = ''cancelled''
                                  then Some now else None)\<rparr>
                        else x)
                  (attendanceSessions st)\<rparr>)"
    unfolding updateSessionStatus_def v
    by (simp add: validateSessionOwnership_def updateWhere_def)
qed

theorem updateSessionStatus_from_ongoing_witness:
  "find (\<lambda>s. se_id s = 1) (attendanceSessions demo_store) = Some session_ongoing \<and>
   se_status session_ongoing = ''ongoing'' \<and> se_createdBy session_ongoing = 7 \<and>
   updateSessionStatus demo_store
     \<lparr>uq_sessionId = 1, uq_status = ''completed'', uq_profileId = 7\<rparr> 1641634200000 =
   (Inr \<lparr>ur_sessionId = 1, ur_status = ''completed'', ur_endedAt = Some 1641634200000,
         ur_message = ''Session completed successfully''\<rparr>,
    demo_store\<lparr>attendanceSessions :=
      [session_ongoing\<lparr>se_status := ''completed'', se_endedAt := Some 1641634200000\<rparr>,
       session_completed]\<rparr>) \<and>
   updateSessionStatus demo_store
     \<lparr>uq_sessionId = 1, uq_status = ''paused'', uq_profileId = 7\<rparr> 1641634200000 =
   (Inl ValidationError, demo_store)"
  using updateSessionStatus_from_ongoing
      [of demo_store "\<lparr>uq_sessionId = 1, uq_status = ''completed'', uq_profileId = 7\<rparr>"
          1641634200000
          "\<lparr>ur_sessionId = 1, ur_status = ''completed'', ur_endedAt = Some 1641634200000,
            ur_message = ''Session completed successfully''\<rparr>" session_ongoing]
    updateSessionStatus_from_ongoing
      [of demo_store "\<lparr>uq_sessionId = 1, uq_status = ''paused'', uq_profileId = 7\<rparr>"
          1641634200000
          "\<lparr>ur_sessionId = 1, ur_status = ''completed'', ur_endedAt = Some 1641634200000,
            ur_message = ''Session completed successfully''\<rparr>" session_ongoing]
  by (simp add: demo_defs)

section \<open>Student check-in\<close>

lemma find_map_preserve:
  assumes "\<And>x. P (f x) = P x"
  shows "find P (map f xs) = map_option f (find P xs)"
  using assms by (induction xs) auto

lemma find_at_id: "find (\<lambda>a. at_id a = k) rows = Some x \<Longrightarrow> at_id x = k"
  by (induction rows) (auto split: if_splits)

text \<open>What a successful check-in found and what it wrote.\<close>

lemma studentCheckIn_success_ex:
  assumes "studentCheckIn tza st rq now = (Inr r, st')"
  shows "\<exists>v s a e.
      studentCheckInSchema rq = Some v \<and>
      kq_sessionId v = kq_sessionId rq \<and> kq_studentId v = kq_studentId rq \<and>
      find (\<lambda>s. se_id s = kq_sessionId rq) (attendanceSessions st) = Some s \<and>
      se_status s = ''ongoing'' \<and>
      find (\<lambda>a. at_attendanceSessionId a = kq_sessionId rq \<and>
                 at_studentId a = kq_studentId rq) (attendances st) = Some a \<and>
      at_status a = ''absent'' \<and>
      find (\<lambda>e. cs_id e = se_classScheduleId s) (classSchedules st) = Some e \<and>
      st' = st\<lparr>attendances :=
               map (\<lambda>x. if at_id x = at_id a
                         then checkInData
                                (determineAttendanceStatus tza now (se_date s) (cs_startTime e) None)
                                now (kq_method v) (kq_faceConfidence v) x
                         else x) (attendances st)\<rparr> \<and>
      kr_id r = at_id a \<and>
      kr_status r = determineAttendanceStatus tza now (se_date s) (cs_startTime e) None \<and>
      kr_checkInTime r = Some now"
  using assms
  by (auto simp: studentCheckIn_def validate_def studentCheckInSchema_def Let_def
      updateWhere_def checkInData_def
      split: option.splits sum.splits if_splits prod.splits dest: find_at_id)

lemma studentCheckIn_success:
  assumes "studentCheckIn tza st rq now = (Inr r, st')"
  obtains v s a e where
    "studentCheckInSchema rq = Some v"
    "kq_sessionId v = kq_sessionId rq" "kq_studentId v = kq_studentId rq"
    "find (\<lambda>s. se_id s = kq_sessionId rq) (attendanceSessions st) = Some s"
    "se_status s = ''ongoing''"
    "find (\<lambda>a. at_attendanceSessionId a = kq_sessionId rq \<and>
               at_studentId a = kq_studentId rq) (attendances st) = Some a"
    "at_status a = ''absent''"
    "find (\<lambda>e. cs_id e = se_classScheduleId s) (classSchedules st) = Some e"
    "st' = st\<lparr>attendances :=
             map (\<lambda>x. if at_id x = at_id a
                       then checkInData
                              (determineAttendanceStatus tza now (se_date s) (cs_startTime e) None)
                              now (kq_method v) (kq_faceConfidence v) x
                       else x) (attendances st)\<rparr>"
    "kr_id r = at_id a"
    "kr_status r = determineAttendanceStatus tza now (se_date s) (cs_startTime e) None"
    "kr_checkInTime r = Some now"
proof -
  from studentCheckIn_success_ex [OF assms] show thesis
    by (elim exE conjE) (rule that)
qed

lemma studentCheckIn_failure:
  assumes "studentCheckIn tza st rq now = (Inl e, st')"
  shows "st' = st"
  using assms
  by (auto simp: studentCheckIn_def validate_def Let_def updateWhere_def
      split: option.splits sum.splits if_splits prod.splits)

lemma checkInData_keys:
  "at_attendanceSessionId (checkInData status now m c x) = at_attendanceSessionId x"
  "at_studentId (checkInData status now m c x) = at_studentId x"
  "at_id (checkInData status now m c x) = at_id x"
  "at_status (checkInData status now m c x) = status"
  "at_checkInTime (checkInData status now m c x) = Some now"
  by (simp_all add: checkInData_def)

lemma studentCheckIn_sets_checkedIn:
  assumes "studentCheckIn tza st rq now = (Inr r, st')"
  shows "checkedIn (kq_sessionId rq) (kq_studentId rq) st'"
proof -
  from assms show ?thesis
  proof (rule studentCheckIn_success)
    fix v s a e
    assume a: "find (\<lambda>a. at_attendanceSessionId a = kq_sessionId rq \<and>
                 at_studentId a = kq_studentId rq) (attendances st) = Some a"
      and st': "st' = st\<lparr>attendances :=
               map (\<lambda>x. if at_id x = at_id a
                         then checkInData
                                (determineAttendanceStatus tza now (se_date s) (cs_startTime e) None)
                                now (kq_method v) (kq_faceConfidence v) x
                         else x) (attendances st)\<rparr>"
    show ?thesis
      unfolding checkedIn_def st'
      by (simp add: find_map_preserve checkInData_keys a determineAttendanceStatus_not_absent)
  qed
qed

lemma studentCheckIn_keeps_checkedIn:
  assumes "checkedIn sid stu st"
  shows "checkedIn sid stu (snd (studentCheckIn tza st rq now))"
proof (cases "studentCheckIn tza st rq now")
  case (Pair res st')
  show ?thesis
  proof (cases res)
    case (Inl e)
    with Pair have "studentCheckIn tza st rq now = (Inl e, st')" by simp
    then have "st' = st" by (rule studentCheckIn_failure)
    with Pair assms show ?thesis by simp
  next
    case (Inr r)
    with Pair have ok: "studentCheckIn tza st rq now = (Inr r, st')" by simp
    from ok show ?thesis
    proof (rule studentCheckIn_success)
      fix v s a e
      assume st': "st' = st\<lparr>attendances :=
               map (\<lambda>x. if at_id x = at_id a
                         then checkInData
                                (determineAttendanceStatus tza now (se_date s) (cs_startTime e) None)
                                now (kq_method v) (kq_faceConfidence v) x
                         else x) (attendances st)\<rparr>"
      from assms obtain a0 where
        a0: "find (\<lambda>a. at_attendanceSessionId a = sid \<and> at_studentId a = stu)
               (attendances st) = Some a0"
          "at_status a0 \<noteq> ''absent''"
        by (auto simp: checkedIn_def split: option.splits)
      have "checkedIn sid stu st'"
        unfolding checkedIn_def st'
        by (simp add: find_map_preserve checkInData_keys a0
            determineAttendanceStatus_not_absent)
      then show ?thesis by (simp add: Pair)
    qed
  qed
qed

lemma checkedIn_blocks:
  assumes "checkedIn (kq_sessionId rq) (kq_studentId rq) st"
  shows "\<exists>e. studentCheckIn tza st rq now = (Inl e, st)"
proof (cases "studentCheckIn tza st rq now")
  case (Pair res st')
  show ?thesis
  proof (cases res)
    case (Inl e)
    with Pair have failed: "studentCheckIn tza st rq now = (Inl e, st')" by simp
    then have "st' = st" by (rule studentCheckIn_failure)
    with failed show ?thesis by simp
  next
    case (Inr r)
    with Pair have ok: "studentCheckIn tza st rq now = (Inr r, st')" by simp
    from ok show ?thesis
    proof (rule studentCheckIn_success)
      fix a
      assume "find (\<lambda>a. at_attendanceSessionId a = kq_sessionId rq \<and>
                 at_studentId a = kq_studentId rq) (attendances st) = Some a"
        and "at_status a = ''absent''"
      with assms show ?thesis by (simp add: checkedIn_def)
    qed
  qed
qed

lemma second_checkIn_rejected:
  assumes "studentCheckIn tza st rq now = (Inr r, st')"
  shows "studentCheckIn tza st' rq now' =
           (Inl (ResponseError 400 (Msg ''Already checked in for this session'')), st')"
  using assms
proof (rule studentCheckIn_success)
  fix v s a e
  assume v: "studentCheckInSchema rq = Some v"
      "kq_sessionId v = kq_sessionId rq" "kq_studentId v = kq_studentId rq"
    and s: "find (\<lambda>s. se_id s = kq_sessionId rq) (attendanceSessions st) = Some s"
      "se_status s = ''ongoing''"
    and st': "st' = st\<lparr>attendances :=
               map (\<lambda>x. if at_id x = at_id a
                         then checkInData
                                (determineAttendanceStatus tza now (se_date s) (cs_startTime e) None)
                                now (kq_method v) (kq_faceConfidence v) x
                         else x) (attendances st)\<rparr>"
  from st' have sessions: "attendanceSessions st' = attendanceSessions st" by simp
  from studentCheckIn_sets_checkedIn [OF assms]
  obtain a' where a': "find (\<lambda>a. at_attendanceSessionId a = kq_sessionId rq \<and>
                 at_studentId a = kq_studentId rq) (attendances st') = Some a'"
      "at_status a' \<noteq> ''absent''"
    by (auto simp: checkedIn_def split: option.splits)
  show ?thesis
    by (simp add: studentCheckIn_def validate_def v sessions s a')
qed

lemma successfulCheckIns_bound:
  "(checkedIn sid stu st \<longrightarrow> successfulCheckIns tza sid stu st calls = 0) \<and>
   successfulCheckIns tza sid stu st calls \<le> 1"
proof (induction calls arbitrary: st)
  case Nil
  show ?case by simp
next
  case (Cons call calls)
  obtain rq now where call: "call = (rq, now)" by (cases call)
  obtain res st' where step: "studentCheckIn tza st rq now = (res, st')"
    by (cases "studentCheckIn tza st rq now")
  have keep: "checkedIn sid stu st \<Longrightarrow> checkedIn sid stu st'"
    using studentCheckIn_keeps_checkedIn [of sid stu st tza rq now] step by simp
  show ?case
  proof (cases res)
    case (Inl e)
    with step have failed: "studentCheckIn tza st rq now = (Inl e, st')" by simp
    then have "st' = st" by (rule studentCheckIn_failure)
    with failed call Cons.IH [of st] show ?thesis by simp
  next
    case (Inr r)
    with step have ok: "studentCheckIn tza st rq now = (Inr r, st')" by simp
    show ?thesis
    proof (cases "kq_sessionId rq = sid \<and> kq_studentId rq = stu")
      case True
      with studentCheckIn_sets_checkedIn [OF ok] have reached: "checkedIn sid stu st'" by simp
      from True checkedIn_blocks [of rq st tza now] ok have "\<not> checkedIn sid stu st" by auto
      with True reached Cons.IH [of st'] ok call show ?thesis by simp
    next
      case False
      with keep Cons.IH [of st'] ok call show ?thesis by auto
    qed
  qed
qed

lemmas run_defs = checkedin_store_def remarked_row_def remarked_store_def rechecked_row_def
  rechecked_store_def

lemmas date_defs = determineAttendanceStatus_def toISODate_def parseDateTime_def setMinutes_def
  getMinutes_def LocalTime_def UTC_def MakeDate_def MakeTime_def Day_def HourFromTime_def
  MinFromTime_def SecFromTime_def msFromTime_def msPerDay_def

lemmas checkIn_defs = studentCheckIn_def validate_def studentCheckInSchema_def updateWhere_def
  checkInData_def methodOrDefault_def confidenceOrNull_def Let_def

lemma demo_checkIn_0810:
  "studentCheckIn 0 demo_store checkIn_11 1641629400000 =
     (Inr \<lparr>kr_message = ''Checked in successfully'', kr_id = 1, kr_status = ''present'',
           kr_checkInTime = Some 1641629400000, kr_method = Some ''face_recognition''\<rparr>,
      checkedin_store)"
  by (simp add: checkIn_defs date_defs demo_defs run_defs)

lemma demo_remark_0815:
  "markSingleAttendance checkedin_store
     \<lparr>sq_attendanceId = 1, sq_status = ''absent'', sq_notes = None, sq_profileId = 7\<rparr>
     1641629700000 =
     (Inr \<lparr>sr_message = ''Attendance updated successfully'', sr_id = 1,
           sr_status = ''absent'', sr_checkInTime = None, sr_notes = None\<rparr>,
      remarked_store)"
  by (simp add: markSingleAttendance_def validate_def markSingleAttendanceSchema_def
      validStatuses_def maxLen_def validateSessionActive_def updateWhere_def manualData_def
      orNull_def demo_defs run_defs)

lemma demo_checkIn_0820:
  "studentCheckIn 0 remarked_store checkIn_11 1641630000000 =
     (Inr \<lparr>kr_message = ''Checked in successfully (marked as late)'', kr_id = 1,
           kr_status = ''late'', kr_checkInTime = Some 1641630000000,
           kr_method = Some ''face_recognition''\<rparr>,
      rechecked_store)"
  by (simp add: checkIn_defs date_defs demo_defs run_defs)

text \<open>
  C4, as stated, fails on the code: after a successful check-in of student 11 in session
  1, the teacher marks the record absent again (markSingleAttendance accepts \<open>absent\<close>),
  and a second check-in of the same student in the same session succeeds.
\<close>

theorem studentCheckIn_twice_counterexample:
  "studentCheckIn 0 demo_store checkIn_11 1641629400000 =
     (Inr \<lparr>kr_message = ''Checked in successfully'', kr_id = 1, kr_status = ''present'',
           kr_checkInTime = Some 1641629400000, kr_method = Some ''face_recognition''\<rparr>,
      checkedin_store) \<and>
   markSingleAttendance checkedin_store
     \<lparr>sq_attendanceId = 1, sq_status = ''absent'', sq_notes = None, sq_profileId = 7\<rparr>
     1641629700000 =
     (Inr \<lparr>sr_message = ''Attendance updated successfully'', sr_id = 1,
           sr_status = ''absent'', sr_checkInTime = None, sr_notes = None\<rparr>,
      remarked_store) \<and>
   studentCheckIn 0 remarked_store checkIn_11 1641630000000 =
     (Inr \<lparr>kr_message = ''Checked in successfully (marked as late)'', kr_id = 1,
           kr_status = ''late'', kr_checkInTime = Some 1641630000000,
           kr_method = Some ''face_recognition''\<rparr>,
      rechecked_store)"
  using demo_checkIn_0810 demo_remark_0815 demo_checkIn_0820 by simp

text \<open>
  C4 (amended): studentCheckIn succeeds only when the session exists with status
  ongoing and the student's attendance record for that session exists with status
  absent; a second check-in on the store that a successful one left fails with the
  already-checked-in error and changes nothing; so in every run of studentCheckIn
  calls (no teacher marking in between) at most one call succeeds per session and
  student.
\<close>

theorem studentCheckIn_one_shot:
  "(studentCheckIn tza st rq now = (Inr r, st') \<longrightarrow>
      (\<exists>s a. find (\<lambda>s. se_id s = kq_sessionId rq) (attendanceSessions st) = Some s \<and>
             se_status s = ''ongoing'' \<and>
             find (\<lambda>a. at_attendanceSessionId a = kq_sessionId rq \<and>
                        at_studentId a = kq_studentId rq) (attendances st) = Some a \<and>
             at_status a = ''absent'') \<and>
      studentCheckIn tza st' rq now' =
        (Inl (ResponseError 400 (Msg ''Already checked in for this session'')), st')) \<and>
   successfulCheckIns tza sid stu st0 calls \<le> 1"
proof (intro conjI impI)
  assume ok: "studentCheckIn tza st rq now = (Inr r, st')"
  from ok show "\<exists>s a. find (\<lambda>s. se_id s = kq_sessionId rq) (attendanceSessions st) = Some s \<and>
             se_status s = ''ongoing'' \<and>
             find (\<lambda>a. at_attendanceSessionId a = kq_sessionId rq \<and>
                        at_studentId a = kq_studentId rq) (attendances st) = Some a \<and>
             at_status a = ''absent''"
    by (rule studentCheckIn_success) blast
  from ok show "studentCheckIn tza st' rq now' =
        (Inl (ResponseError 400 (Msg ''Already checked in for this session'')), st')"
    by (rule second_checkIn_rejected)
next
  show "successfulCheckIns tza sid stu st0 calls \<le> 1"
    using successfulCheckIns_bound [of sid stu st0 tza calls] by simp
qed

theorem studentCheckIn_one_shot_witness:
  "studentCheckIn 0 demo_store checkIn_11 1641629400000 =
     (Inr \<lparr>kr_message = ''Checked in successfully'', kr_id = 1, kr_status = ''present'',
           kr_checkInTime = Some 1641629400000, kr_method = Some ''face_recognition''\<rparr>,
      checkedin_store) \<and>
   studentCheckIn 0 checkedin_store checkIn_11 1641630000000 =
     (Inl (ResponseError 400 (Msg ''Already checked in for this session'')),
      checkedin_store) \<and>
   successfulCheckIns 0 1 11 demo_store
     [(checkIn_11, 1641629400000), (checkIn_11, 1641630000000)] \<le> 1"
  using demo_checkIn_0810
    studentCheckIn_one_shot [of 0 demo_store checkIn_11 1641629400000
      "\<lparr>kr_message = ''Checked in successfully'', kr_id = 1, kr_status = ''present'',
        kr_checkInTime = Some 1641629400000, kr_method = Some ''face_recognition''\<rparr>"
      checkedin_store 1641630000000 1 11 demo_store
      "[(checkIn_11, 1641629400000), (checkIn_11, 1641630000000)]"]
  by simp

lemma demo_checkIn_utc7:
  "fst (studentCheckIn 25200000 demo_store checkIn_11 1641604200000) =
     Inr \<lparr>kr_message = ''Checked in successfully'', kr_id = 1, kr_status = ''present'',
          kr_checkInTime = Some 1641604200000, kr_method = Some ''face_recognition''\<rparr>"
  by (simp add: checkIn_defs date_defs demo_defs)

text \<open>
  C5: with the default threshold of 15 minutes, the determined status is \<open>present\<close> if
  \<open>now \<le> scheduledStart + 15 minutes\<close> and \<open>late\<close> otherwise, where \<open>scheduledStart\<close>
  is the session's date combined with the slot's start time (the instant at which the
  host's clock, at zone offset \<open>tza\<close>, shows that time on that day): ten minutes after
  the start gives \<open>present\<close>, twenty minutes \<open>late\<close>, exactly fifteen minutes
  \<open>present\<close>; and this is the status a successful studentCheckIn at \<open>now\<close> returns.
  This holds for every zone offset of the host.
\<close>

theorem determineAttendanceStatus_threshold:
  "determineAttendanceStatus tza now sessionDate start None =
     (if now \<le> scheduledStart tza sessionDate start + 15 * 60000
      then ''present'' else ''late'') \<and>
   determineAttendanceStatus tza (scheduledStart tza sessionDate start + 10 * 60000)
     sessionDate start None = ''present'' \<and>
   determineAttendanceStatus tza (scheduledStart tza sessionDate start + 20 * 60000)
     sessionDate start None = ''late'' \<and>
   determineAttendanceStatus tza (scheduledStart tza sessionDate start + 15 * 60000)
     sessionDate start None = ''present'' \<and>
   (studentCheckIn tza st rq now = (Inr r, st') \<and>
    find (\<lambda>s. se_id s = kq_sessionId rq) (attendanceSessions st) = Some s \<and>
    find (\<lambda>e. cs_id e = se_classScheduleId s) (classSchedules st) = Some e \<longrightarrow>
      kr_status r =
        (if now \<le> scheduledStart tza (se_date s) (cs_startTime e) + 15 * 60000
         then ''present'' else ''late''))"
proof (intro conjI impI)
  assume h: "studentCheckIn tza st rq now = (Inr r, st') \<and>
    find (\<lambda>s. se_id s = kq_sessionId rq) (attendanceSessions st) = Some s \<and>
    find (\<lambda>e. cs_id e = se_classScheduleId s) (classSchedules st) = Some e"
  then have ok: "studentCheckIn tza st rq now = (Inr r, st')" by simp
  from ok show "kr_status r =
        (if now \<le> scheduledStart tza (se_date s) (cs_startTime e) + 15 * 60000
         then ''present'' else ''late'')"
  proof (rule studentCheckIn_success)
    fix s' e'
    assume "find (\<lambda>s. se_id s = kq_sessionId rq) (attendanceSessions st) = Some s'"
      and "find (\<lambda>e. cs_id e = se_classScheduleId s') (classSchedules st) = Some e'"
      and "kr_status r = determineAttendanceStatus tza now (se_date s') (cs_startTime e') None"
    with h show ?thesis by (simp add: determineAttendanceStatus_default)
  qed
qed (simp_all add: determineAttendanceStatus_default)

theorem determineAttendanceStatus_threshold_witness:
  "studentCheckIn 0 demo_store checkIn_11 1641629400000 =
     (Inr \<lparr>kr_message = ''Checked in successfully'', kr_id = 1, kr_status = ''present'',
           kr_checkInTime = Some 1641629400000, kr_method = Some ''face_recognition''\<rparr>,
      checkedin_store) \<and>
   find (\<lambda>s. se_id s = kq_sessionId checkIn_11) (attendanceSessions demo_store) =
     Some session_ongoing \<and>
   find (\<lambda>e. cs_id e = se_classScheduleId session_ongoing) (classSchedules demo_store) =
     Some demo_schedule \<and>
   scheduledStart 0 (se_date session_ongoing) (cs_startTime demo_schedule) = 1641628800000 \<and>
   (1641629400000::int) \<le> 1641628800000 + 15 * 60000 \<and>
   fst (studentCheckIn 25200000 demo_store checkIn_11 1641604200000) =
     Inr \<lparr>kr_message = ''Checked in successfully'', kr_id = 1, kr_status = ''present'',
          kr_checkInTime = Some 1641604200000, kr_method = Some ''face_recognition''\<rparr> \<and>
   scheduledStart 25200000 (se_date session_ongoing) (cs_startTime demo_schedule) =
     1641603600000 \<and>
   (1641604200000::int) \<le> 1641603600000 + 15 * 60000"
proof -
  have utc7: "studentCheckIn 25200000 demo_store checkIn_11 1641604200000 =
     (Inr \<lparr>kr_message = ''Checked in successfully'', kr_id = 1, kr_status = ''present'',
           kr_checkInTime = Some 1641604200000, kr_method = Some ''face_recognition''\<rparr>,
      snd (studentCheckIn 25200000 demo_store checkIn_11 1641604200000))"
    using demo_checkIn_utc7 by (simp add: prod_eq_iff)
  show ?thesis
    using demo_checkIn_0810 demo_checkIn_utc7 utc7
      determineAttendanceStatus_threshold [of 0 1641629400000 "se_date session_ongoing"
        "cs_startTime demo_schedule" demo_store checkIn_11
        "\<lparr>kr_message = ''Checked in successfully'', kr_id = 1, kr_status = ''present'',
          kr_checkInTime = Some 1641629400000, kr_method = Some ''face_recognition''\<rparr>"
        checkedin_store session_ongoing demo_schedule]
      determineAttendanceStatus_threshold [of 25200000 1641604200000 "se_date session_ongoing"
        "cs_startTime demo_schedule" demo_store checkIn_11
        "\<lparr>kr_message = ''Checked in successfully'', kr_id = 1, kr_status = ''present'',
          kr_checkInTime = Some 1641604200000, kr_method = Some ''face_recognition''\<rparr>"
        "snd (studentCheckIn 25200000 demo_store checkIn_11 1641604200000)"
        session_ongoing demo_schedule]
    by (simp add: demo_defs scheduledStart_def)
qed

section \<open>Session creation\<close>

lemma createAttendances_length:
  "length (createAttendances rows sid studs) = length studs"
  by (simp add: createAttendances_def Let_def)

lemma createAttendances_students:
  "map at_studentId (createAttendances rows sid studs) = map st_id studs"
proof -
  let ?ids = "[freshId (map at_id rows) ..< freshId (map at_id rows) + length studs]"
  have z: "map snd (zip ?ids studs) = studs"
    by (rule map_snd_zip) simp
  have "map at_studentId (createAttendances rows sid studs) =
        map (\<lambda>p. st_id (snd p)) (zip ?ids studs)"
    by (simp add: createAttendances_def Let_def newAttendance_def case_prod_beta)
  also have "\<dots> = map st_id (map snd (zip ?ids studs))"
    by (simp only: map_map comp_def)
  also have "\<dots> = map st_id studs"
    by (simp only: z)
  finally show ?thesis .
qed

lemma createAttendances_rows:
  "list_all (\<lambda>a. at_attendanceSessionId a = sid \<and> at_status a = ''absent'' \<and>
                  at_checkInTime a = None)
     (createAttendances rows sid studs)"
  by (auto simp: createAttendances_def Let_def newAttendance_def list_all_iff)

text \<open>What a successful createSession found and what it wrote.\<close>

lemma createSession_success:
  assumes "createSession st rq now = (Inr r, st')"
  obtains schedule where
    "find (\<lambda>e. cs_id e = cq_classScheduleId rq \<and> cs_teacherId e = cq_profileId rq \<and>
               cs_isActive e) (classSchedules st) = Some schedule"
    "find (\<lambda>s. se_classScheduleId s = cq_classScheduleId rq \<and>
               se_date s = newDate (cq_date rq)) (attendanceSessions st) = None"
    "st' = st\<lparr>attendanceSessions := attendanceSessions st @
              [\<lparr>se_id = freshId (map se_id (attendanceSessions st)),
                se_classScheduleId = cq_classScheduleId rq,
                se_date = newDate (cq_date rq),
                se_status = ''ongoing'', se_startedAt = now, se_endedAt = None,
                se_notes = orNull (cq_notes rq), se_createdBy = cq_profileId rq\<rparr>],
            attendances := attendances st @
              createAttendances (attendances st)
                (freshId (map se_id (attendanceSessions st)))
                (filter (\<lambda>s. st_classId s = cs_classId schedule) (students st))\<rparr>"
    "cr_sessionId r = freshId (map se_id (attendanceSessions st))"
    "cr_status r = ''ongoing''"
    "cr_startedAt r = now"
    "cr_totalStudents r =
       length (filter (\<lambda>s. st_classId s = cs_classId schedule) (students st))"
proof -
  from assms have "\<exists>schedule.
    find (\<lambda>e. cs_id e = cq_classScheduleId rq \<and> cs_teacherId e = cq_profileId rq \<and>
               cs_isActive e) (classSchedules st) = Some schedule \<and>
    find (\<lambda>s. se_classScheduleId s = cq_classScheduleId rq \<and>
               se_date s = newDate (cq_date rq)) (attendanceSessions st) = None \<and>
    st' = st\<lparr>attendanceSessions := attendanceSessions st @
              [\<lparr>se_id = freshId (map se_id (attendanceSessions st)),
                se_classScheduleId = cq_classScheduleId rq,
                se_date = newDate (cq_date rq),
                se_status = ''ongoing'', se_startedAt = now, se_endedAt = None,
                se_notes = orNull (cq_notes rq), se_createdBy = cq_profileId rq\<rparr>],
            attendances := attendances st @
              createAttendances (attendances st)
                (freshId (map se_id (attendanceSessions st)))
                (filter (\<lambda>s. st_classId s = cs_classId schedule) (students st))\<rparr> \<and>
    cr_sessionId r = freshId (map se_id (attendanceSessions st)) \<and>
    cr_status r = ''ongoing'' \<and>
    cr_startedAt r = now \<and>
    cr_totalStudents r =
       length (filter (\<lambda>s. st_classId s = cs_classId schedule) (students st))"
    by (auto simp: createSession_def validate_def createSessionSchema_def Let_def
        createAttendances_length split: option.splits if_splits)
  then show thesis
    by (elim exE conjE) (rule that)
qed

lemma createSession_failure:
  assumes "createSession st rq now = (Inl e, st')"
  shows "st' = st"
  using assms
  by (auto simp: createSession_def validate_def Let_def split: option.splits sum.splits)

lemma distinct_count_one:
  assumes "distinct xs" and "x \<in> set xs"
  shows "length (filter (\<lambda>y. y = x) xs) = 1"
  using assms by (induction xs) (auto simp: filter_empty_conv)

text \<open>
  C6: a successful createSession appends one session, with status \<open>ongoing\<close> and
  \<open>startedAt = now\<close>, and appends one attendance record per student enrolled in the
  slot's class at that instant, in roster order: as many records as enrolled students,
  each for the new session, with status \<open>absent\<close> and no check-in time; when student
  ids are unique, every enrolled student has exactly one of the new records.
\<close>

theorem createSession_snapshot:
  assumes "createSession st rq now = (Inr r, st')"
  shows "\<exists>schedule session created.
     find (\<lambda>e. cs_id e = cq_classScheduleId rq \<and> cs_teacherId e = cq_profileId rq \<and>
                cs_isActive e) (classSchedules st) = Some schedule \<and>
     attendanceSessions st' = attendanceSessions st @ [session] \<and>
     se_status session = ''ongoing'' \<and> se_startedAt session = now \<and>
     se_classScheduleId session = cq_classScheduleId rq \<and>
     cr_sessionId r = se_id session \<and> cr_status r = ''ongoing'' \<and> cr_startedAt r = now \<and>
     attendances st' = attendances st @ created \<and>
     length created =
       length (filter (\<lambda>s. st_classId s = cs_classId schedule) (students st)) \<and>
     cr_totalStudents r = length created \<and>
     map at_studentId created =
       map st_id (filter (\<lambda>s. st_classId s = cs_classId schedule) (students st)) \<and>
     list_all (\<lambda>a. at_attendanceSessionId a = se_id session \<and> at_status a = ''absent'' \<and>
                     at_checkInTime a = None) created \<and>
     (distinct (map st_id (students st)) \<longrightarrow>
        (\<forall>s \<in> set (students st). st_classId s = cs_classId schedule \<longrightarrow>
           length (filter (\<lambda>a. at_studentId a = st_id s) created) = 1))"
  using assms
proof (rule createSession_success)
  fix schedule :: classSchedule
  let ?roster = "filter (\<lambda>s. st_classId s = cs_classId schedule) (students st)"
  let ?sid = "freshId (map se_id (attendanceSessions st))"
  let ?session = "\<lparr>se_id = ?sid,
                se_classScheduleId = cq_classScheduleId rq,
                se_date = newDate (cq_date rq),
                se_status = ''ongoing'', se_startedAt = now, se_endedAt = None,
                se_notes = orNull (cq_notes rq), se_createdBy = cq_profileId rq\<rparr>"
  let ?created = "createAttendances (attendances st) ?sid ?roster"
  assume sched: "find (\<lambda>e. cs_id e = cq_classScheduleId rq \<and>
        cs_teacherId e = cq_profileId rq \<and> cs_isActive e) (classSchedules st) = Some schedule"
    and st': "st' = st\<lparr>attendanceSessions := attendanceSessions st @ [?session],
            attendances := attendances st @ ?created\<rparr>"
    and r: "cr_sessionId r = ?sid" "cr_status r = ''ongoing''" "cr_startedAt r = now"
      "cr_totalStudents r = length ?roster"
  have one: "length (filter (\<lambda>a. at_studentId a = st_id s) ?created) = 1"
    if d: "distinct (map st_id (students st))" and s: "s \<in> set (students st)"
      "st_classId s = cs_classId schedule" for s
  proof -
    have "length (filter (\<lambda>a. at_studentId a = st_id s) ?created) =
          length (filter (\<lambda>y. y = st_id s) (map at_studentId ?created))"
      by (simp add: filter_map comp_def)
    also have "\<dots> = length (filter (\<lambda>y. y = st_id s) (map st_id ?roster))"
      by (simp only: createAttendances_students)
    also have "\<dots> = 1"
    proof (rule distinct_count_one)
      from d show "distinct (map st_id ?roster)" by (rule distinct_map_filter)
      from s show "st_id s \<in> set (map st_id ?roster)" by auto
    qed
    finally show ?thesis .
  qed
  have "find (\<lambda>e. cs_id e = cq_classScheduleId rq \<and> cs_teacherId e = cq_profileId rq \<and>
                cs_isActive e) (classSchedules st) = Some schedule \<and>
     attendanceSessions st' = attendanceSessions st @ [?session] \<and>
     se_status ?session = ''ongoing'' \<and> se_startedAt ?session = now \<and>
     se_classScheduleId ?session = cq_classScheduleId rq \<and>
     cr_sessionId r = se_id ?session \<and> cr_status r = ''ongoing'' \<and> cr_startedAt r = now \<and>
     attendances st' = attendances st @ ?created \<and>
     length ?created = length ?roster \<and>
     cr_totalStudents r = length ?created \<and>
     map at_studentId ?created = map st_id ?roster \<and>
     list_all (\<lambda>a. at_attendanceSessionId a = se_id ?session \<and> at_status a = ''absent'' \<and>
                     at_checkInTime a = None) ?created \<and>
     (distinct (map st_id (students st)) \<longrightarrow>
        (\<forall>s \<in> set (students st). st_classId s = cs_classId schedule \<longrightarrow>
           length (filter (\<lambda>a. at_studentId a = st_id s) ?created) = 1))"
    using sched r one createAttendances_rows [of ?sid "attendances st" ?roster]
    by (simp add: st' createAttendances_length createAttendances_students)
  then show ?thesis by blast
qed

lemmas create_defs = create_request_def store_30_def

lemma class_of_30_roster:
  "filter (\<lambda>s. st_classId s = 3) class_of_30 = class_of_30"
  by (simp add: class_of_30_def filter_map comp_def)

lemma class_of_30_length: "length class_of_30 = 30"
  by (simp add: class_of_30_def)

lemma store_30_result:
  "fst (createSession store_30 create_request 1642233600000) =
     Inr \<lparr>cr_sessionId = 3, cr_date = 1642204800000, cr_status = ''ongoing'',
          cr_startedAt = 1642233600000, cr_notes = None, cr_totalStudents = 30\<rparr>"
  by (simp add: createSession_def validate_def createSessionSchema_def maxLen_def orNull_def
      Let_def freshId_def newDate_def MakeDate_def msPerDay_def createAttendances_length
      class_of_30_roster class_of_30_length create_defs demo_defs)

theorem createSession_snapshot_witness:
  "createSession store_30 create_request 1642233600000 =
     (Inr \<lparr>cr_sessionId = 3, cr_date = 1642204800000, cr_status = ''ongoing'',
           cr_startedAt = 1642233600000, cr_notes = None, cr_totalStudents = 30\<rparr>,
      snd (createSession store_30 create_request 1642233600000)) \<and>
   length (attendances store_30) = 4 \<and>
   length (attendances (snd (createSession store_30 create_request 1642233600000))) = 34 \<and>
   list_all (\<lambda>a. at_status a = ''absent'' \<and> at_checkInTime a = None)
     (drop 4 (attendances (snd (createSession store_30 create_request 1642233600000))))"
proof -
  let ?st' = "snd (createSession store_30 create_request 1642233600000)"
  have e: "createSession store_30 create_request 1642233600000 =
     (Inr \<lparr>cr_sessionId = 3, cr_date = 1642204800000, cr_status = ''ongoing'',
           cr_startedAt = 1642233600000, cr_notes = None, cr_totalStudents = 30\<rparr>, ?st')"
    using store_30_result by (simp add: prod_eq_iff)
  have n: "length (attendances store_30) = 4"
    by (simp add: create_defs demo_defs)
  have sched: "find (\<lambda>e. cs_id e = cq_classScheduleId create_request \<and>
        cs_teacherId e = cq_profileId create_request \<and> cs_isActive e)
      (classSchedules store_30) = Some demo_schedule"
    by (simp add: create_defs demo_defs)
  have roster: "length (filter (\<lambda>s. st_classId s = cs_classId demo_schedule)
      (students store_30)) = 30"
    by (simp add: create_defs demo_defs class_of_30_roster class_of_30_length)
  from createSession_snapshot [OF e] show ?thesis
  proof (elim exE conjE)
    fix schedule :: classSchedule and session :: attendanceSession
      and created :: "attendance list"
    assume f: "find (\<lambda>e. cs_id e = cq_classScheduleId create_request \<and>
        cs_teacherId e = cq_profileId create_request \<and> cs_isActive e)
      (classSchedules store_30) = Some schedule"
      and a: "attendances ?st' = attendances store_30 @ created"
      and l: "length created =
         length (filter (\<lambda>s. st_classId s = cs_classId schedule) (students store_30))"
      and rows: "list_all (\<lambda>a. at_attendanceSessionId a = se_id session \<and>
           at_status a = ''absent'' \<and> at_checkInTime a = None) created"
    from f sched have "schedule = demo_schedule" by simp
    with l roster have "length created = 30" by simp
    with a n rows e show ?thesis by (simp add: list_all_iff)
  qed
qed

section \<open>Teacher marking\<close>

lemma manualData_keys:
  "at_id (manualData status notes pid now a) = at_id a"
  "at_attendanceSessionId (manualData status notes pid now a) = at_attendanceSessionId a"
  "at_studentId (manualData status notes pid now a) = at_studentId a"
  "at_status (manualData status notes pid now a) = status"
  "at_checkInTime (manualData status notes pid now a) =
     (if status \<noteq> ''absent'' then Some now else None)"
  by (simp_all add: manualData_def)

text \<open>A later manual update of a row overwrites every field an earlier one set.\<close>

lemma manualData_overwrite:
  "manualData s2 n2 p2 t2 (manualData s1 n1 p1 t1 a) = manualData s2 n2 p2 t2 a"
  by (simp add: manualData_def)

lemma updateWhere_rows:
  assumes "updateWhere w d rows = Inr (rows', u)"
  shows "rows' = map (\<lambda>x. if w x then d x else x) rows" and "list_ex w rows"
  using assms by (auto simp: updateWhere_def split: option.splits dest: find_is_Some)

lemma list_ex_map_preserve:
  assumes "\<And>x. P (f x) = P x"
  shows "list_ex P (map f xs) = list_ex P xs"
  using assms by (induction xs) auto

text \<open>
  Row by row, a committed batch leaves a row as it was or replaces it by the manual
  update of one of the entries, and only rows of the given session are replaced.
\<close>

lemma markEach_rows:
  "markEach sid pid now ups rows = Inr (rows', res) \<Longrightarrow>
   list_all2 (\<lambda>a a'. a' = a \<or>
        (at_attendanceSessionId a = sid \<and>
         (\<exists>u \<in> set ups. at_id a = au_attendanceId u \<and>
                         a' = manualData (au_status u) (au_notes u) pid now a)))
     rows rows'"
proof (induction ups arbitrary: rows rows' res)
  case Nil
  then show ?case by (simp add: list_all2_same)
next
  case (Cons att atts)
  let ?w = "\<lambda>a. at_id a = au_attendanceId att \<and> at_attendanceSessionId a = sid"
  let ?d = "manualData (au_status att) (au_notes att) pid now"
  let ?f = "\<lambda>x. if ?w x then ?d x else x"
  from Cons.prems obtain rows1 upd res' where
    u: "updateWhere ?w ?d rows = Inr (rows1, upd)"
    and m: "markEach sid pid now atts rows1 = Inr (rows', res')"
    by (auto split: sum.splits prod.splits)
  from updateWhere_rows(1) [OF u] have rows1: "rows1 = map ?f rows" .
  from Cons.IH [OF m] have
    "list_all2 (\<lambda>x a'. a' = ?f x \<or>
        (at_attendanceSessionId (?f x) = sid \<and>
         (\<exists>u \<in> set atts. at_id (?f x) = au_attendanceId u \<and>
                         a' = manualData (au_status u) (au_notes u) pid now (?f x))))
       rows rows'"
    unfolding rows1 list_all2_map1 .
  then show ?case
  proof (rule list_all2_mono)
    fix a a'
    assume "a' = ?f a \<or>
        (at_attendanceSessionId (?f a) = sid \<and>
         (\<exists>u \<in> set atts. at_id (?f a) = au_attendanceId u \<and>
                         a' = manualData (au_status u) (au_notes u) pid now (?f a)))"
    then show "a' = a \<or>
        (at_attendanceSessionId a = sid \<and>
         (\<exists>u \<in> set (att # atts). at_id a = au_attendanceId u \<and>
                         a' = manualData (au_status u) (au_notes u) pid now a))"
      by (cases "?w a") (auto simp: manualData_keys manualData_overwrite)
  qed
qed

lemma markEach_no_match:
  "u \<in> set ups \<Longrightarrow>
   \<not> list_ex (\<lambda>a. at_id a = au_attendanceId u \<and> at_attendanceSessionId a = sid) rows \<Longrightarrow>
   \<exists>e. markEach sid pid now ups rows = Inl e"
proof (induction ups arbitrary: rows)
  case Nil
  then show ?case by simp
next
  case (Cons att atts)
  let ?w = "\<lambda>a. at_id a = au_attendanceId att \<and> at_attendanceSessionId a = sid"
  let ?d = "manualData (au_status att) (au_notes att) pid now"
  show ?case
  proof (cases "updateWhere ?w ?d rows")
    case (Inl e)
    then show ?thesis by simp
  next
    case (Inr p)
    obtain rows1 upd where p: "p = (rows1, upd)" by (cases p)
    with Inr have upd: "updateWhere ?w ?d rows = Inr (rows1, upd)" by simp
    from updateWhere_rows [OF upd] have
      rows1: "rows1 = map (\<lambda>x. if ?w x then ?d x else x) rows" and hit: "list_ex ?w rows"
      by simp_all
    from hit Cons.prems(2) have "u \<noteq> att" by auto
    with Cons.prems(1) have mem: "u \<in> set atts" by simp
    have "list_ex (\<lambda>a. at_id a = au_attendanceId u \<and> at_attendanceSessionId a = sid) rows1 =
          list_ex (\<lambda>a. at_id a = au_attendanceId u \<and> at_attendanceSessionId a = sid) rows"
      unfolding rows1 by (rule list_ex_map_preserve) (simp add: manualData_keys)
    with Cons.prems(2) have
      "\<not> list_ex (\<lambda>a. at_id a = au_attendanceId u \<and> at_attendanceSessionId a = sid) rows1"
      by simp
    from Cons.IH [OF mem this] obtain e where "markEach sid pid now atts rows1 = Inl e" ..
    with upd show ?thesis by simp
  qed
qed

text \<open>What a successful markAttendance found and what it wrote.\<close>

lemma markAttendance_success:
  assumes "markAttendance st rq now = (Inr r, st')"
  obtains s rows res where
    "find (\<lambda>s. se_id s = mq_sessionId rq) (attendanceSessions st) = Some s"
    "se_createdBy s = mq_profileId rq"
    "se_status s \<noteq> ''completed''" "se_status s \<noteq> ''cancelled''"
    "markEach (mq_sessionId rq) (mq_profileId rq) now (mq_attendances rq) (attendances st) =
       Inr (rows, res)"
    "st' = st\<lparr>attendances := rows\<rparr>"
proof -
  from assms have "\<exists>s rows res.
    find (\<lambda>s. se_id s = mq_sessionId rq) (attendanceSessions st) = Some s \<and>
    se_createdBy s = mq_profileId rq \<and>
    se_status s \<noteq> ''completed'' \<and> se_status s \<noteq> ''cancelled'' \<and>
    markEach (mq_sessionId rq) (mq_profileId rq) now (mq_attendances rq) (attendances st) =
       Inr (rows, res) \<and>
    st' = st\<lparr>attendances := rows\<rparr>"
    by (auto simp: markAttendance_def validate_def markAttendanceSchema_def
        validateSessionActive_def split: option.splits sum.splits if_splits prod.splits)
  then show thesis
    by (elim exE conjE) (rule that)
qed

lemma markAttendance_failure:
  assumes "markAttendance st rq now = (Inl e, st')"
  shows "st' = st"
  using assms
  by (auto simp: markAttendance_def validate_def
      split: option.splits sum.splits if_splits prod.splits)

lemma markAttendance_no_match:
  assumes "u \<in> set (mq_attendances rq)"
    and "\<not> list_ex (\<lambda>a. at_id a = au_attendanceId u \<and>
                         at_attendanceSessionId a = mq_sessionId rq) (attendances st)"
  shows "\<exists>e. markAttendance st rq now = (Inl e, st)"
proof (cases "markAttendance st rq now")
  case (Pair res st')
  show ?thesis
  proof (cases res)
    case (Inl e)
    with Pair have failed: "markAttendance st rq now = (Inl e, st')" by simp
    then have "st' = st" by (rule markAttendance_failure)
    with failed show ?thesis by simp
  next
    case (Inr r)
    with Pair have ok: "markAttendance st rq now = (Inr r, st')" by simp
    from ok show ?thesis
    proof (rule markAttendance_success)
      fix rows res
      assume "markEach (mq_sessionId rq) (mq_profileId rq) now (mq_attendances rq)
                (attendances st) = Inr (rows, res)"
      with markEach_no_match [OF assms, of "mq_profileId rq" now] show ?thesis by simp
    qed
  qed
qed

lemmas mark_defs = mark_row_1_def mark_rows_1_3_def marked_row_def marked_store_def

lemmas markAttendance_defs = markAttendance_def validate_def markAttendanceSchema_def
  attendanceItemValid_def validStatuses_def maxLen_def validateSessionActive_def
  updateWhere_def manualData_def orNull_def

lemma demo_mark_row_1:
  "markAttendance demo_store mark_row_1 1641630000000 =
     (Inr \<lparr>mr_message = ''Attendance marked successfully'', mr_sessionId = 1,
           mr_updated = 1\<rparr>,
      marked_store)"
  by (simp add: markAttendance_defs demo_defs mark_defs)

lemma demo_mark_rows_1_3:
  "markAttendance demo_store mark_rows_1_3 1641630000000 = (Inl RecordNotFound, demo_store)"
  by (simp add: markAttendance_defs demo_defs mark_defs)

text \<open>
  C10: markAttendance on session \<open>S\<close> leaves the other tables as they are and, row by
  row, keeps the id and the session of every attendance row and leaves every row of
  another session unchanged, whatever the outcome; and when the batch has an entry
  whose \<open>attendanceId\<close> is carried only by rows of other sessions, the call fails and
  the store is exactly as before.
\<close>

theorem markAttendance_frame:
  "(markAttendance st rq now = (res, st') \<longrightarrow>
      classSchedules st' = classSchedules st \<and> students st' = students st \<and>
      attendanceSessions st' = attendanceSessions st \<and>
      list_all2 (\<lambda>a a'. at_id a' = at_id a \<and>
                   at_attendanceSessionId a' = at_attendanceSessionId a \<and>
                   (at_attendanceSessionId a \<noteq> mq_sessionId rq \<longrightarrow> a' = a))
        (attendances st) (attendances st')) \<and>
   (u \<in> set (mq_attendances rq) \<and>
    (\<forall>a \<in> set (attendances st).
        at_id a = au_attendanceId u \<longrightarrow> at_attendanceSessionId a \<noteq> mq_sessionId rq) \<longrightarrow>
      (\<exists>e. markAttendance st rq now = (Inl e, st)))"
proof (intro conjI impI)
  assume step: "markAttendance st rq now = (res, st')"
  have frame: "classSchedules st' = classSchedules st \<and> students st' = students st \<and>
      attendanceSessions st' = attendanceSessions st \<and>
      list_all2 (\<lambda>a a'. at_id a' = at_id a \<and>
                   at_attendanceSessionId a' = at_attendanceSessionId a \<and>
                   (at_attendanceSessionId a \<noteq> mq_sessionId rq \<longrightarrow> a' = a))
        (attendances st) (attendances st')"
  proof (cases res)
    case (Inl e)
    with step have "st' = st" by (simp add: markAttendance_failure)
    then show ?thesis by (simp add: list_all2_same)
  next
    case (Inr r)
    with step have ok: "markAttendance st rq now = (Inr r, st')" by simp
    from ok show ?thesis
    proof (rule markAttendance_success)
      fix rows res'
      assume m: "markEach (mq_sessionId rq) (mq_profileId rq) now (mq_attendances rq)
                   (attendances st) = Inr (rows, res')"
        and st': "st' = st\<lparr>attendances := rows\<rparr>"
      from markEach_rows [OF m] have
        "list_all2 (\<lambda>a a'. at_id a' = at_id a \<and>
                   at_attendanceSessionId a' = at_attendanceSessionId a \<and>
                   (at_attendanceSessionId a \<noteq> mq_sessionId rq \<longrightarrow> a' = a))
           (attendances st) rows"
        by (rule list_all2_mono) (auto simp: manualData_keys)
      with st' show ?thesis by simp
    qed
  qed
  from frame show "classSchedules st' = classSchedules st" by simp
  from frame show "students st' = students st" by simp
  from frame show "attendanceSessions st' = attendanceSessions st" by simp
  from frame show "list_all2 (\<lambda>a a'. at_id a' = at_id a \<and>
                   at_attendanceSessionId a' = at_attendanceSessionId a \<and>
                   (at_attendanceSessionId a \<noteq> mq_sessionId rq \<longrightarrow> a' = a))
        (attendances st) (attendances st')" by simp
next
  assume h: "u \<in> set (mq_attendances rq) \<and>
    (\<forall>a \<in> set (attendances st).
        at_id a = au_attendanceId u \<longrightarrow> at_attendanceSessionId a \<noteq> mq_sessionId rq)"
  then have "\<not> list_ex (\<lambda>a. at_id a = au_attendanceId u \<and>
                         at_attendanceSessionId a = mq_sessionId rq) (attendances st)"
    by (auto simp: list_ex_iff)
  with h show "\<exists>e. markAttendance st rq now = (Inl e, st)"
    using markAttendance_no_match [of u rq st now] by simp
qed

theorem markAttendance_frame_witness:
  "markAttendance demo_store mark_row_1 1641630000000 =
     (Inr \<lparr>mr_message = ''Attendance marked successfully'', mr_sessionId = 1,
           mr_updated = 1\<rparr>,
      marked_store) \<and>
   attendances demo_store ! 2 = absent_row 3 2 11 \<and>
   attendances marked_store ! 2 = absent_row 3 2 11 \<and>
   at_attendanceSessionId (absent_row 3 2 11) = 2 \<and>
   \<lparr>au_attendanceId = 3, au_status = ''present'', au_notes = None\<rparr>
     \<in> set (mq_attendances mark_rows_1_3) \<and>
   markAttendance demo_store mark_rows_1_3 1641630000000 = (Inl RecordNotFound, demo_store)"
  using demo_mark_row_1 demo_mark_rows_1_3
    markAttendance_frame [of demo_store mark_row_1 1641630000000
      "Inr \<lparr>mr_message = ''Attendance marked successfully'', mr_sessionId = 1,
            mr_updated = 1\<rparr>" marked_store
      "\<lparr>au_attendanceId = 3, au_status = ''present'', au_notes = None\<rparr>"]
    markAttendance_frame [of demo_store mark_rows_1_3 1641630000000
      "Inl RecordNotFound" demo_store
      "\<lparr>au_attendanceId = 3, au_status = ''present'', au_notes = None\<rparr>"]
  by (simp add: demo_defs mark_defs)

section \<open>The check-in time invariant\<close>

text \<open>What a successful markSingleAttendance found and what it wrote.\<close>

lemma markSingleAttendance_success:
  assumes "markSingleAttendance st rq now = (Inr r, st')"
  obtains a where
    "find (\<lambda>a. at_id a = sq_attendanceId rq) (attendances st) = Some a"
    "st' = st\<lparr>attendances :=
             map (\<lambda>x. if at_id x = sq_attendanceId rq
                       then manualData (sq_status rq) (sq_notes rq) (sq_profileId rq) now x
                       else x) (attendances st)\<rparr>"
    "sr_id r = sq_attendanceId rq"
    "sr_status r = sq_status rq"
    "sr_checkInTime r = (if sq_status rq \<noteq> ''absent'' then Some now else None)"
proof -
  from assms have "\<exists>a.
    find (\<lambda>a. at_id a = sq_attendanceId rq) (attendances st) = Some a \<and>
    st' = st\<lparr>attendances :=
             map (\<lambda>x. if at_id x = sq_attendanceId rq
                       then manualData (sq_status rq) (sq_notes rq) (sq_profileId rq) now x
                       else x) (attendances st)\<rparr> \<and>
    sr_id r = sq_attendanceId rq \<and>
    sr_status r = sq_status rq \<and>
    sr_checkInTime r = (if sq_status rq \<noteq> ''absent'' then Some now else None)"
    by (auto simp: markSingleAttendance_def validate_def markSingleAttendanceSchema_def
        updateWhere_def manualData_keys
        split: option.splits sum.splits if_splits prod.splits dest: find_at_id)
  then show thesis
    by (elim exE conjE) (rule that)
qed

lemma markSingleAttendance_failure:
  assumes "markSingleAttendance st rq now = (Inl e, st')"
  shows "st' = st"
  using assms
  by (auto simp: markSingleAttendance_def validate_def updateWhere_def
      split: option.splits sum.splits if_splits prod.splits)

lemma invariant_map:
  assumes "checkInTimeInvariant rows"
    and "\<And>x. at_checkInTime x = None \<or> at_status x \<noteq> ''absent'' \<Longrightarrow>
             at_checkInTime (f x) = None \<or> at_status (f x) \<noteq> ''absent''"
  shows "checkInTimeInvariant (map f rows)"
  using assms by (auto simp: checkInTimeInvariant_def list_all_iff)

lemma invariant_list_all2:
  assumes "list_all2 (\<lambda>a a'. (at_checkInTime a = None \<or> at_status a \<noteq> ''absent'') \<longrightarrow>
                            (at_checkInTime a' = None \<or> at_status a' \<noteq> ''absent'')) xs ys"
    and "checkInTimeInvariant xs"
  shows "checkInTimeInvariant ys"
  using assms by (induction rule: list_all2_induct) (auto simp: checkInTimeInvariant_def)

lemma invariant_createSession:
  assumes "checkInTimeInvariant (attendances st)"
  shows "checkInTimeInvariant (attendances (snd (createSession st rq now)))"
proof (cases "createSession st rq now")
  case (Pair res st')
  show ?thesis
  proof (cases res)
    case (Inl e)
    with Pair have "createSession st rq now = (Inl e, st')" by simp
    then have "st' = st" by (rule createSession_failure)
    with Pair assms show ?thesis by simp
  next
    case (Inr r)
    with Pair have ok: "createSession st rq now = (Inr r, st')" by simp
    from ok show ?thesis
    proof (rule createSession_success)
      fix schedule :: classSchedule
      assume st': "st' = st\<lparr>attendanceSessions := attendanceSessions st @
              [\<lparr>se_id = freshId (map se_id (attendanceSessions st)),
                se_classScheduleId = cq_classScheduleId rq,
                se_date = newDate (cq_date rq),
                se_status = ''ongoing'', se_startedAt = now, se_endedAt = None,
                se_notes = orNull (cq_notes rq), se_createdBy = cq_profileId rq\<rparr>],
            attendances := attendances st @
              createAttendances (attendances st)
                (freshId (map se_id (attendanceSessions st)))
                (filter (\<lambda>s. st_classId s = cs_classId schedule) (students st))\<rparr>"
      have "checkInTimeInvariant (attendances st')"
        using assms
          createAttendances_rows [of "freshId (map se_id (attendanceSessions st))"
            "attendances st" "filter (\<lambda>s. st_classId s = cs_classId schedule) (students st)"]
        by (auto simp: st' checkInTimeInvariant_def list_all_iff)
      with Pair show ?thesis by simp
    qed
  qed
qed

lemma invariant_markAttendance:
  assumes "checkInTimeInvariant (attendances st)"
  shows "checkInTimeInvariant (attendances (snd (markAttendance st rq now)))"
proof (cases "markAttendance st rq now")
  case (Pair res st')
  show ?thesis
  proof (cases res)
    case (Inl e)
    with Pair have "markAttendance st rq now = (Inl e, st')" by simp
    then have "st' = st" by (rule markAttendance_failure)
    with Pair assms show ?thesis by simp
  next
    case (Inr r)
    with Pair have ok: "markAttendance st rq now = (Inr r, st')" by simp
    from ok show ?thesis
    proof (rule markAttendance_success)
      fix rows res'
      assume m: "markEach (mq_sessionId rq) (mq_profileId rq) now (mq_attendances rq)
                   (attendances st) = Inr (rows, res')"
        and st': "st' = st\<lparr>attendances := rows\<rparr>"
      from markEach_rows [OF m] have
        "list_all2 (\<lambda>a a'. (at_checkInTime a = None \<or> at_status a \<noteq> ''absent'') \<longrightarrow>
                            (at_checkInTime a' = None \<or> at_status a' \<noteq> ''absent''))
           (attendances st) rows"
        by (rule list_all2_mono) (auto simp: manualData_keys)
      from this assms have "checkInTimeInvariant rows"
        by (rule invariant_list_all2)
      with Pair st' show ?thesis by simp
    qed
  qed
qed

lemma invariant_markSingleAttendance:
  assumes "checkInTimeInvariant (attendances st)"
  shows "checkInTimeInvariant (attendances (snd (markSingleAttendance st rq now)))"
proof (cases "markSingleAttendance st rq now")
  case (Pair res st')
  show ?thesis
  proof (cases res)
    case (Inl e)
    with Pair have "markSingleAttendance st rq now = (Inl e, st')" by simp
    then have "st' = st" by (rule markSingleAttendance_failure)
    with Pair assms show ?thesis by simp
  next
    case (Inr r)
    with Pair have ok: "markSingleAttendance st rq now = (Inr r, st')" by simp
    from ok show ?thesis
    proof (rule markSingleAttendance_success)
      assume st': "st' = st\<lparr>attendances :=
             map (\<lambda>x. if at_id x = sq_attendanceId rq
                       then manualData (sq_status rq) (sq_notes rq) (sq_profileId rq) now x
                       else x) (attendances st)\<rparr>"
      have "checkInTimeInvariant (attendances st')"
        unfolding st' using assms
        by (auto intro!: invariant_map simp: manualData_keys split: if_splits)
      with Pair show ?thesis by simp
    qed
  qed
qed

lemma invariant_studentCheckIn:
  assumes "checkInTimeInvariant (attendances st)"
  shows "checkInTimeInvariant (attendances (snd (studentCheckIn tza st rq now)))"
proof (cases "studentCheckIn tza st rq now")
  case (Pair res st')
  show ?thesis
  proof (cases res)
    case (Inl e)
    with Pair have "studentCheckIn tza st rq now = (Inl e, st')" by simp
    then have "st' = st" by (rule studentCheckIn_failure)
    with Pair assms show ?thesis by simp
  next
    case (Inr r)
    with Pair have ok: "studentCheckIn tza st rq now = (Inr r, st')" by simp
    from ok show ?thesis
    proof (rule studentCheckIn_success)
      fix v :: studentCheckInRequest and s :: attendanceSession and a :: attendance
        and e :: classSchedule
      assume st': "st' = st\<lparr>attendances :=
               map (\<lambda>x. if at_id x = at_id a
                         then checkInData
                                (determineAttendanceStatus tza now (se_date s) (cs_startTime e) None)
                                now (kq_method v) (kq_faceConfidence v) x
                         else x) (attendances st)\<rparr>"
      have "checkInTimeInvariant (attendances st')"
        unfolding st' using assms
        by (auto intro!: invariant_map
            simp: checkInData_keys determineAttendanceStatus_not_absent split: if_splits)
      with Pair show ?thesis by simp
    qed
  qed
qed

lemma determineAttendanceStatus_values:
  "determineAttendanceStatus tza now sessionDate start threshold = ''present'' \<or>
   determineAttendanceStatus tza now sessionDate start threshold = ''late''"
  by (simp add: determineAttendanceStatus_def Let_def)

lemma markAttendance_written:
  assumes "markAttendance st rq now = (Inr r, st')"
  shows "list_all2 (\<lambda>a a'. a' = a \<or>
           (\<exists>u \<in> set (mq_attendances rq). at_id a = au_attendanceId u \<and>
              at_status a' = au_status u \<and>
              at_checkInTime a' = (if au_status u \<noteq> ''absent'' then Some now else None)))
         (attendances st) (attendances st')"
  using assms
proof (rule markAttendance_success)
  fix rows res'
  assume m: "markEach (mq_sessionId rq) (mq_profileId rq) now (mq_attendances rq)
               (attendances st) = Inr (rows, res')"
    and st': "st' = st\<lparr>attendances := rows\<rparr>"
  from markEach_rows [OF m] have
    "list_all2 (\<lambda>a a'. a' = a \<or>
           (\<exists>u \<in> set (mq_attendances rq). at_id a = au_attendanceId u \<and>
              at_status a' = au_status u \<and>
              at_checkInTime a' = (if au_status u \<noteq> ''absent'' then Some now else None)))
       (attendances st) rows"
    by (rule list_all2_mono) (auto simp: manualData_keys)
  with st' show ?thesis by simp
qed

lemma markSingleAttendance_written:
  assumes "markSingleAttendance st rq now = (Inr r, st')"
  shows "sr_status r = sq_status rq \<and>
         sr_checkInTime r = (if sq_status rq \<noteq> ''absent'' then Some now else None) \<and>
         (\<exists>a'. find (\<lambda>a. at_id a = sq_attendanceId rq) (attendances st') = Some a' \<and>
               at_status a' = sq_status rq \<and>
               at_checkInTime a' = (if sq_status rq \<noteq> ''absent'' then Some now else None))"
  using assms
proof (rule markSingleAttendance_success)
  fix a
  assume a: "find (\<lambda>a. at_id a = sq_attendanceId rq) (attendances st) = Some a"
    and st': "st' = st\<lparr>attendances :=
             map (\<lambda>x. if at_id x = sq_attendanceId rq
                       then manualData (sq_status rq) (sq_notes rq) (sq_profileId rq) now x
                       else x) (attendances st)\<rparr>"
    and r: "sr_status r = sq_status rq"
      "sr_checkInTime r = (if sq_status rq \<noteq> ''absent'' then Some now else None)"
  from a have id: "at_id a = sq_attendanceId rq" by (rule find_at_id)
  have "find (\<lambda>a. at_id a = sq_attendanceId rq) (attendances st') =
        Some (manualData (sq_status rq) (sq_notes rq) (sq_profileId rq) now a)"
    unfolding st' by (simp add: find_map_preserve manualData_keys a id)
  with r show ?thesis by (simp add: manualData_keys)
qed

lemma studentCheckIn_written:
  assumes "studentCheckIn tza st rq now = (Inr r, st')"
  shows "(kr_status r = ''present'' \<or> kr_status r = ''late'') \<and>
         kr_checkInTime r = Some now \<and>
         (\<exists>a'. find (\<lambda>a. at_attendanceSessionId a = kq_sessionId rq \<and>
                          at_studentId a = kq_studentId rq) (attendances st') = Some a' \<and>
               at_status a' = kr_status r \<and> at_checkInTime a' = Some now)"
  using assms
proof (rule studentCheckIn_success)
  fix v :: studentCheckInRequest and s :: attendanceSession and a :: attendance
    and e :: classSchedule
  assume a: "find (\<lambda>a. at_attendanceSessionId a = kq_sessionId rq \<and>
                 at_studentId a = kq_studentId rq) (attendances st) = Some a"
    and st': "st' = st\<lparr>attendances :=
               map (\<lambda>x. if at_id x = at_id a
                         then checkInData
                                (determineAttendanceStatus tza now (se_date s) (cs_startTime e) None)
                                now (kq_method v) (kq_faceConfidence v) x
                         else x) (attendances st)\<rparr>"
    and r: "kr_status r = determineAttendanceStatus tza now (se_date s) (cs_startTime e) None"
      "kr_checkInTime r = Some now"
  have "find (\<lambda>a. at_attendanceSessionId a = kq_sessionId rq \<and>
                 at_studentId a = kq_studentId rq) (attendances st') =
        Some (checkInData (determineAttendanceStatus tza now (se_date s) (cs_startTime e) None)
                now (kq_method v) (kq_faceConfidence v) a)"
    unfolding st' by (simp add: find_map_preserve checkInData_keys a)
  with r determineAttendanceStatus_values [of tza now "se_date s" "cs_startTime e" None]
  show ?thesis by (simp add: checkInData_keys)
qed

lemma createSession_written:
  assumes "createSession st rq now = (Inr r, st')"
  shows "list_all (\<lambda>a. at_status a = ''absent'' \<and> at_checkInTime a = None)
           (drop (length (attendances st)) (attendances st'))"
  using assms
proof (rule createSession_success)
  fix schedule :: classSchedule
  assume st': "st' = st\<lparr>attendanceSessions := attendanceSessions st @
              [\<lparr>se_id = freshId (map se_id (attendanceSessions st)),
                se_classScheduleId = cq_classScheduleId rq,
                se_date = newDate (cq_date rq),
                se_status = ''ongoing'', se_startedAt = now, se_endedAt = None,
                se_notes = orNull (cq_notes rq), se_createdBy = cq_profileId rq\<rparr>],
            attendances := attendances st @
              createAttendances (attendances st)
                (freshId (map se_id (attendanceSessions st)))
                (filter (\<lambda>s. st_classId s = cs_classId schedule) (students st))\<rparr>"
  show ?thesis
    using createAttendances_rows [of "freshId (map se_id (attendanceSessions st))"
        "attendances st" "filter (\<lambda>s. st_classId s = cs_classId schedule) (students st)"]
    by (simp add: st' list_all_iff)
qed

text \<open>
  C7: every operation that writes attendance records keeps the invariant that a record
  has a check-in time only when its status is not \<open>absent\<close>. A teacher's marking (bulk
  and single) gives a row the requested status with \<open>checkInTime = now\<close> exactly when
  that status is not \<open>absent\<close> and null when it is; a check-in writes \<open>checkInTime = now\<close>
  together with the status \<open>present\<close> or \<open>late\<close>; creation writes \<open>absent\<close> rows without
  a check-in time.
\<close>

theorem checkInTime_only_when_not_absent:
  assumes "checkInTimeInvariant (attendances st)"
  shows "checkInTimeInvariant (attendances (snd (createSession st cq now))) \<and>
         checkInTimeInvariant (attendances (snd (markAttendance st mq now))) \<and>
         checkInTimeInvariant (attendances (snd (markSingleAttendance st sq now))) \<and>
         checkInTimeInvariant (attendances (snd (studentCheckIn tza st kq now))) \<and>
         (markAttendance st mq now = (Inr r1, st1) \<longrightarrow>
            list_all2 (\<lambda>a a'. a' = a \<or>
               (\<exists>u \<in> set (mq_attendances mq). at_id a = au_attendanceId u \<and>
                  at_status a' = au_status u \<and>
                  at_checkInTime a' =
                    (if au_status u \<noteq> ''absent'' then Some now else None)))
              (attendances st) (attendances st1)) \<and>
         (markSingleAttendance st sq now = (Inr r2, st2) \<longrightarrow>
            sr_status r2 = sq_status sq \<and>
            sr_checkInTime r2 = (if sq_status sq \<noteq> ''absent'' then Some now else None) \<and>
            (\<exists>a'. find (\<lambda>a. at_id a = sq_attendanceId sq) (attendances st2) = Some a' \<and>
                  at_status a' = sq_status sq \<and>
                  at_checkInTime a' =
                    (if sq_status sq \<noteq> ''absent'' then Some now else None))) \<and>
         (studentCheckIn tza st kq now = (Inr r3, st3) \<longrightarrow>
            (kr_status r3 = ''present'' \<or> kr_status r3 = ''late'') \<and>
            kr_checkInTime r3 = Some now \<and>
            (\<exists>a'. find (\<lambda>a. at_attendanceSessionId a = kq_sessionId kq \<and>
                             at_studentId a = kq_studentId kq) (attendances st3) = Some a' \<and>
                  at_status a' = kr_status r3 \<and> at_checkInTime a' = Some now)) \<and>
         (createSession st cq now = (Inr r4, st4) \<longrightarrow>
            list_all (\<lambda>a. at_status a = ''absent'' \<and> at_checkInTime a = None)
              (drop (length (attendances st)) (attendances st4)))"
  using assms invariant_createSession [of st cq now] invariant_markAttendance [of st mq now]
    invariant_markSingleAttendance [of st sq now] invariant_studentCheckIn [of st tza kq now]
    markAttendance_written [of st mq now r1 st1]
    markSingleAttendance_written [of st sq now r2 st2]
    studentCheckIn_written [of tza st kq now r3 st3]
    createSession_written [of st cq now r4 st4]
  by blast

lemma demo_store_invariant: "checkInTimeInvariant (attendances demo_store)"
  by (simp add: checkInTimeInvariant_def demo_defs)

lemma demo_excuse_row_2:
  "fst (markSingleAttendance demo_store excuse_row_2 1641630000000) =
     Inr \<lparr>sr_message = ''Attendance updated successfully'', sr_id = 2,
          sr_status = ''excused'', sr_checkInTime = Some 1641630000000,
          sr_notes = Some ''sick note''\<rparr>"
  by (simp add: markSingleAttendance_def validate_def markSingleAttendanceSchema_def
      validStatuses_def maxLen_def validateSessionActive_def updateWhere_def manualData_def
      orNull_def demo_defs excuse_row_2_def)

lemma demo_create:
  "fst (createSession demo_store create_request 1641630000000) =
     Inr \<lparr>cr_sessionId = 3, cr_date = 1642204800000, cr_status = ''ongoing'',
          cr_startedAt = 1641630000000, cr_notes = None, cr_totalStudents = 2\<rparr>"
  by (simp add: createSession_def validate_def createSessionSchema_def maxLen_def orNull_def
      Let_def freshId_def newDate_def MakeDate_def msPerDay_def createAttendances_length
      create_request_def demo_defs)

lemma demo_checkIn_late:
  "fst (studentCheckIn 0 demo_store checkIn_11 1641630000000) =
     Inr \<lparr>kr_message = ''Checked in successfully (marked as late)'', kr_id = 1,
          kr_status = ''late'', kr_checkInTime = Some 1641630000000,
          kr_method = Some ''face_recognition''\<rparr>"
  by (simp add: checkIn_defs date_defs demo_defs)

theorem checkInTime_only_when_not_absent_witness:
  "checkInTimeInvariant (attendances demo_store) \<and>
   markAttendance demo_store mark_row_1 1641630000000 =
     (Inr \<lparr>mr_message = ''Attendance marked successfully'', mr_sessionId = 1,
           mr_updated = 1\<rparr>,
      marked_store) \<and>
   checkInTimeInvariant (attendances marked_store) \<and>
   fst (markSingleAttendance demo_store excuse_row_2 1641630000000) =
     Inr \<lparr>sr_message = ''Attendance updated successfully'', sr_id = 2,
          sr_status = ''excused'', sr_checkInTime = Some 1641630000000,
          sr_notes = Some ''sick note''\<rparr> \<and>
   checkInTimeInvariant
     (attendances (snd (markSingleAttendance demo_store excuse_row_2 1641630000000))) \<and>
   fst (studentCheckIn 0 demo_store checkIn_11 1641630000000) =
     Inr \<lparr>kr_message = ''Checked in successfully (marked as late)'', kr_id = 1,
          kr_status = ''late'', kr_checkInTime = Some 1641630000000,
          kr_method = Some ''face_recognition''\<rparr> \<and>
   checkInTimeInvariant
     (attendances (snd (studentCheckIn 0 demo_store checkIn_11 1641630000000))) \<and>
   fst (createSession demo_store create_request 1641630000000) =
     Inr \<lparr>cr_sessionId = 3, cr_date = 1642204800000, cr_status = ''ongoing'',
          cr_startedAt = 1641630000000, cr_notes = None, cr_totalStudents = 2\<rparr> \<and>
   checkInTimeInvariant
     (attendances (snd (createSession demo_store create_request 1641630000000)))"
proof -
  let ?now = "1641630000000 :: int"
  have single: "markSingleAttendance demo_store excuse_row_2 ?now =
      (Inr \<lparr>sr_message = ''Attendance updated successfully'', sr_id = 2,
          sr_status = ''excused'', sr_checkInTime = Some 1641630000000,
          sr_notes = Some ''sick note''\<rparr>,
       snd (markSingleAttendance demo_store excuse_row_2 ?now))"
    using demo_excuse_row_2 by (simp add: prod_eq_iff)
  have checkin: "studentCheckIn 0 demo_store checkIn_11 ?now =
      (Inr \<lparr>kr_message = ''Checked in successfully (marked as late)'', kr_id = 1,
          kr_status = ''late'', kr_checkInTime = Some 1641630000000,
          kr_method = Some ''face_recognition''\<rparr>,
       snd (studentCheckIn 0 demo_store checkIn_11 ?now))"
    using demo_checkIn_late by (simp add: prod_eq_iff)
  have create: "createSession demo_store create_request ?now =
      (Inr \<lparr>cr_sessionId = 3, cr_date = 1642204800000, cr_status = ''ongoing'',
          cr_startedAt = 1641630000000, cr_notes = None, cr_totalStudents = 2\<rparr>,
       snd (createSession demo_store create_request ?now))"
    using demo_create by (simp add: prod_eq_iff)
  show ?thesis
    using demo_store_invariant demo_mark_row_1 demo_excuse_row_2 demo_checkIn_late demo_create
      single checkin create
      checkInTime_only_when_not_absent [OF demo_store_invariant,
        of create_request ?now mark_row_1 excuse_row_2 0 checkIn_11
          "\<lparr>mr_message = ''Attendance marked successfully'', mr_sessionId = 1,
            mr_updated = 1\<rparr>" marked_store
          "\<lparr>sr_message = ''Attendance updated successfully'', sr_id = 2,
            sr_status = ''excused'', sr_checkInTime = Some 1641630000000,
            sr_notes = Some ''sick note''\<rparr>"
          "snd (markSingleAttendance demo_store excuse_row_2 ?now)"
          "\<lparr>kr_message = ''Checked in successfully (marked as late)'', kr_id = 1,
            kr_status = ''late'', kr_checkInTime = Some 1641630000000,
            kr_method = Some ''face_recognition''\<rparr>"
          "snd (studentCheckIn 0 demo_store checkIn_11 ?now)"
          "\<lparr>cr_sessionId = 3, cr_date = 1642204800000, cr_status = ''ongoing'',
            cr_startedAt = 1641630000000, cr_notes = None, cr_totalStudents = 2\<rparr>"
          "snd (createSession demo_store create_request ?now)"]
    by simp
qed

end
